theory Spec2Isabelle
  imports Main
begin

section \<open>JavaScript values\<close>

text \<open>
  Strings are lists of code units (one \<^typ>\<open>char\<close> per UTF-16 code unit, so
  \<open>length\<close> is JavaScript's \<open>.length\<close> and \<open>take\<close> is \<open>.slice(0, n)\<close>).
  A nullable string is a \<^typ>\<open>string option\<close>; it is truthy when it is present and
  not empty. A \<open>Date\<close> is its number of milliseconds since the epoch.
\<close>

type_synonym date = int

definition truthy :: "string option \<Rightarrow> bool" where
  "truthy s = (case s of None \<Rightarrow> False | Some x \<Rightarrow> x \<noteq> [])"

text \<open>\<open>a || d\<close> on a nullable string.\<close>

definition or_else :: "string option \<Rightarrow> string \<Rightarrow> string" where
  "or_else s d = (case s of None \<Rightarrow> d | Some x \<Rightarrow> if x = [] then d else x)"

text \<open>The white space and line terminators of \<open>String.prototype.trim\<close> below U+0100.\<close>

definition is_space :: "char \<Rightarrow> bool" where
  "is_space c = (c \<in> set [CHR 0x09, CHR 0x0A, CHR 0x0B, CHR 0x0C, CHR 0x0D, CHR 0x20, CHR 0xA0])"

definition trim :: "string \<Rightarrow> string" where
  "trim s = rev (dropWhile is_space (rev (dropWhile is_space s)))"

text \<open>\<open>s.split(",")\<close>: the empty string splits into one empty piece.\<close>

fun split_comma :: "string \<Rightarrow> string list" where
  "split_comma [] = [[]]"
| "split_comma (c # cs) =
     (if c = CHR '','' then [] # split_comma cs
      else (case split_comma cs of [] \<Rightarrow> [[c]] | x # xs \<Rightarrow> (c # x) # xs))"

fun join :: "string \<Rightarrow> string list \<Rightarrow> string" where
  "join sep [] = []"
| "join sep [x] = x"
| "join sep (x # y # ys) = x @ sep @ join sep (y # ys)"

fun string_of_nat :: "nat \<Rightarrow> string" where
  "string_of_nat n =
     (if n < 10 then [char_of (48 + n)]
      else string_of_nat (n div 10) @ [char_of (48 + n mod 10)])"

declare string_of_nat.simps [simp del]

definition string_of_int :: "int \<Rightarrow> string" where
  "string_of_int i = (if i < 0 then CHR ''-'' # string_of_nat (nat (- i)) else string_of_nat (nat i))"

text \<open>
  \<open>Array.prototype.sort(cmp)\<close> is a stable sort (ECMAScript 2019): \<open>a\<close> is put before
  \<open>b\<close> when \<open>cmp a b < 0\<close>, and elements that compare equal keep their order. With a
  consistent comparator that fixes the result, computed here by insertion from the right:
  the new element passes exactly the elements that sort strictly before it.
\<close>

fun insert_by :: "('a \<Rightarrow> 'a \<Rightarrow> int) \<Rightarrow> 'a \<Rightarrow> 'a list \<Rightarrow> 'a list" where
  "insert_by cmp x [] = [x]"
| "insert_by cmp x (y # ys) =
     (if cmp y x < 0 then y # insert_by cmp x ys else x # y # ys)"

definition js_sort :: "('a \<Rightarrow> 'a \<Rightarrow> int) \<Rightarrow> 'a list \<Rightarrow> 'a list" where
  "js_sort cmp xs = foldr (insert_by cmp) xs []"

section \<open>Data model\<close>

datatype level = Info | Warning | Error | Success

record log_entry =
  log_accountId :: string
  log_level :: level
  log_message :: string

record RedditPost =
  post_id :: string
  post_name :: string
  post_title :: string
  post_selftext :: string
  post_author :: string
  post_subreddit :: string
  post_url :: string
  post_permalink :: string
  post_ups :: int
  post_num_comments :: int
  post_created_utc :: int

record RedditCredentials =
  rc_clientId :: string
  rc_clientSecret :: string
  rc_accessToken :: "string option"
  rc_refreshToken :: "string option"
  rc_tokenExpiresAt :: "date option"
  rc_username :: "string option"

record RedditConfiguration =
  rcfg_keywords :: string
  rcfg_timeRange :: string
  rcfg_minimumUpvotes :: int

record OpenRouterCredentials =
  or_apiKey :: "string option"
  or_selectedModel :: "string option"
  or_systemPrompt :: "string option"
  or_noHashtags :: bool
  or_noEmojis :: bool
  or_noCapitalization :: bool
  or_badGrammar :: bool

record YouTubeCredentials =
  yc_clientId :: string
  yc_clientSecret :: string
  yc_accessToken :: "string option"
  yc_refreshToken :: "string option"
  yc_tokenExpiresAt :: "date option"
  yc_channelId :: "string option"

record YouTubeConfiguration =
  ycfg_minimumLikesCount :: int

record Account =
  acc_id :: string
  acc_userId :: string
  redditCredentials :: "RedditCredentials option"
  redditConfig :: "RedditConfiguration option"
  youtubeCredentials :: "YouTubeCredentials option"
  youtubeConfig :: "YouTubeConfiguration option"
  openRouterCredentials :: "OpenRouterCredentials option"

record RedditInteraction =
  ri_id :: nat
  ri_accountId :: string
  ri_postId :: string
  ri_subreddit :: string
  ri_postTitle :: string
  ri_postAuthor :: string
  ri_postUrl :: string
  ri_upvotes :: int
  ri_commentCount :: int
  ri_ourComment :: string
  ri_ourCommentId :: string
  ri_repliedAt :: date
  ri_createdAt :: date

record YouTubeComment =
  cm_commentId :: string
  cm_videoId :: string
  cm_videoTitle :: string
  cm_userComment :: string
  cm_authorName :: string
  cm_authorChannelId :: string
  cm_likeCount :: int
  cm_publishedAt :: date

record YouTubeVideo =
  v_videoId :: string
  v_title :: string

record YouTubeCommentInteraction =
  yi_id :: nat
  yi_accountId :: string
  yi_commentId :: string
  yi_videoId :: string
  yi_videoTitle :: string
  yi_userComment :: string
  yi_authorName :: string
  yi_authorChannelId :: string
  yi_likeCount :: int
  yi_ourReply :: "string option"
  yi_ourReplyId :: "string option"
  yi_repliedAt :: date
  yi_createdAt :: date


section \<open>Effects: responses, the outside world, exceptions\<close>

text \<open>The JSON bodies the two handlers send, one constructor per shape.\<close>

datatype body =
    BError string
  | BNotReplied string
  | BReplied string string string
  | BSuccessNotReplied string
  | BSuccessReplied string string string string string

record response =
  status :: nat
  body :: body

text \<open>\<open>NextResponse.json(body, { status })\<close>; the status is 200 when none is given.\<close>

definition json :: "body \<Rightarrow> nat \<Rightarrow> response" where
  "json b s = \<lparr>status = s, body = b\<rparr>"

text \<open>
  Every HTTP request a run sends is appended to the trace \<open>net\<close>; what the other side
  answers comes from the record \<open>external\<close>. \<open>Rejects\<close> stands for \<open>fetch\<close> or \<open>response.json()\<close>
  rejecting with an \<open>Error\<close> of that message, \<open>NotOk\<close> for a response whose \<open>ok\<close> is
  false (status and body text), \<open>Ok\<close> for the parsed body of a 2xx response.
\<close>

datatype net_call =
    NetRedditToken string string string
  | NetRedditSearch string string string nat
  | NetRedditComment string string string
  | NetOpenRouter string string string string
  | NetGoogleToken string string string
  | NetYouTubeChannels string
  | NetYouTubePlaylistItems string string nat
  | NetYouTubeCommentThreads string string nat
  | NetYouTubeCommentInsert string string string

datatype 'a reply = NotOk nat string | Ok 'a

datatype 'a http = Rejects string | Resolves "'a reply"

record token_data =
  access_token :: string
  expires_in :: int

record google_token_data =
  g_access_token :: string
  g_refresh_token :: "string option"
  g_expires_in :: int

record llm_data =
  llm_content :: "string option"
  llm_raw :: string

record thread =
  t_id :: string
  t_textDisplay :: string
  t_authorDisplayName :: string
  t_authorChannelId :: "string option"
  t_likeCount :: "int option"
  t_publishedAt :: date

text \<open>
  The calls on the database client. The record \<open>external\<close> holds everything a run does
  not decide: which database calls throw (and with what message), what each
  \<open>Date.now()\<close> reads, what the platforms and the language model answer, the environment's
  secret and the session \<open>auth()\<close> finds.
\<close>

datatype db_call =
    LogCreate string level string
  | AccountFindUnique string
  | AccountFindFirst string string
  | RedditCredentialsUpdate string
  | RedditInteractionFindMany string
  | RedditInteractionUpsert string string
  | RedditInteractionFindOld string
  | RedditInteractionDeleteMany "nat list"
  | YouTubeCredentialsUpdate string
  | YouTubeInteractionFindMany string "string list"
  | YouTubeInteractionUpsert string string
  | YouTubeInteractionDeleteMany string date

record external =
  CRON_SECRET :: "string option"
  session_user_id :: "string option"
  db_throws :: "db_call \<Rightarrow> string option"
  now_token_check :: date
  now_token_refreshed :: date
  now_comments :: date
  now_replied :: date
  now_created :: date
  now_prune :: date
  reddit_token :: "net_call \<Rightarrow> token_data http"
  reddit_search :: "net_call \<Rightarrow> RedditPost list http"
  reddit_comment :: "net_call \<Rightarrow> string option http"
  openrouter :: "net_call \<Rightarrow> llm_data http"
  google_token :: "net_call \<Rightarrow> google_token_data http"
  youtube_channels :: "net_call \<Rightarrow> string option http"
  youtube_playlistItems :: "net_call \<Rightarrow> YouTubeVideo list http"
  youtube_commentThreads :: "net_call \<Rightarrow> thread list http"
  youtube_commentInsert :: "net_call \<Rightarrow> string http"

record world =
  accounts :: "Account list"
  redditInteractions :: "RedditInteraction list"
  youtubeInteractions :: "YouTubeCommentInteraction list"
  logs :: "log_entry list"
  net :: "net_call list"

record request =
  body_json :: "string option option"
  x_cron_secret :: "string option"

text \<open>
  A piece of a handler either yields a value, throws an \<open>Error\<close> (its message), or
  returns the handler's response from inside a \<open>try\<close> block.
\<close>

datatype 'a outcome = Value 'a | Throw string | Return response

type_synonym 'a io = "world \<Rightarrow> 'a outcome \<times> world"

definition ret :: "'a \<Rightarrow> 'a io" where
  "ret a w = (Value a, w)"

definition throw :: "string \<Rightarrow> 'a io" where
  "throw e w = (Throw e, w)"

definition respond :: "response \<Rightarrow> 'a io" where
  "respond r w = (Return r, w)"

definition bind :: "'a io \<Rightarrow> ('a \<Rightarrow> 'b io) \<Rightarrow> 'b io" where
  "bind m f w =
     (case m w of
        (Value a, w') \<Rightarrow> f a w'
      | (Throw e, w') \<Rightarrow> (Throw e, w')
      | (Return r, w') \<Rightarrow> (Return r, w'))"

definition try_catch :: "'a io \<Rightarrow> (string \<Rightarrow> 'a io) \<Rightarrow> 'a io" where
  "try_catch m h w = (case m w of (Throw e, w') \<Rightarrow> h e w' | other \<Rightarrow> other)"

definition db :: "external \<Rightarrow> db_call \<Rightarrow> (world \<Rightarrow> 'a \<times> world) \<Rightarrow> 'a io" where
  "db ext call act w =
     (case db_throws ext call of
        Some msg \<Rightarrow> (Throw msg, w)
      | None \<Rightarrow> (case act w of (a, w') \<Rightarrow> (Value a, w')))"

definition fetch :: "net_call \<Rightarrow> 'a http \<Rightarrow> 'a reply io" where
  "fetch call answer w =
     (case answer of
        Rejects msg \<Rightarrow> (Throw msg, w\<lparr>net := net w @ [call]\<rparr>)
      | Resolves r \<Rightarrow> (Value r, w\<lparr>net := net w @ [call]\<rparr>))"

text \<open>Continue with a nullable string when it is truthy, else take the other branch.\<close>

definition required :: "string option \<Rightarrow> 'a io \<Rightarrow> (string \<Rightarrow> 'a io) \<Rightarrow> 'a io" where
  "required v missing k =
     (case v of None \<Rightarrow> missing | Some x \<Rightarrow> if x = [] then missing else k x)"

definition createLog :: "external \<Rightarrow> string \<Rightarrow> level \<Rightarrow> string \<Rightarrow> unit io" where
  "createLog ext accountId lvl message =
     db ext (LogCreate accountId lvl message)
       (\<lambda>w. ((), w\<lparr>logs := logs w @
          [\<lparr>log_accountId = accountId, log_level = lvl, log_message = message\<rparr>]\<rparr>))"

definition dq :: string where
  "dq = [CHR 0x22]"

definition nl :: string where
  "nl = [CHR 0x0A]"


section \<open>The Reddit pipeline\<close>

subsection \<open>refreshTokenIfNeeded\<close>

definition update_reddit_credentials ::
  "string \<Rightarrow> (RedditCredentials \<Rightarrow> RedditCredentials) \<Rightarrow> world \<Rightarrow> world" where
  "update_reddit_credentials accountId f w =
     w\<lparr>accounts := map (\<lambda>a. if acc_id a = accountId
                               then a\<lparr>redditCredentials := map_option f (redditCredentials a)\<rparr>
                               else a) (accounts w)\<rparr>"

text \<open>\<open>tokenExpiresAt && tokenExpiresAt > fiveMinutesFromNow\<close>\<close>

definition expires_after :: "date option \<Rightarrow> date \<Rightarrow> bool" where
  "expires_after expiresAt t = (case expiresAt of None \<Rightarrow> False | Some e \<Rightarrow> e > t)"

definition reddit_refreshTokenIfNeeded ::
  "external \<Rightarrow> string \<Rightarrow> string \<Rightarrow> string \<Rightarrow> string \<Rightarrow> string option \<Rightarrow> date option
    \<Rightarrow> string io" where
  "reddit_refreshTokenIfNeeded ext accountId clientId clientSecret accessToken refreshToken
      tokenExpiresAt =
     (let fiveMinutesFromNow = now_token_check ext + 5 * 60 * 1000 in
      if expires_after tokenExpiresAt fiveMinutesFromNow then ret accessToken
      else required refreshToken (throw ''No refresh token available'') (\<lambda>refresh_token.
        bind (fetch (NetRedditToken clientId clientSecret refresh_token)
                (reddit_token ext (NetRedditToken clientId clientSecret refresh_token)))
          (\<lambda>response. case response of
              NotOk st txt \<Rightarrow> throw ''Failed to refresh token''
            | Ok data \<Rightarrow>
                (let newExpiresAt = now_token_refreshed ext + expires_in data * 1000 in
                 bind (db ext (RedditCredentialsUpdate accountId)
                         (\<lambda>w. ((), update_reddit_credentials accountId
                              (\<lambda>c. c\<lparr>rc_accessToken := Some (access_token data),
                                      rc_tokenExpiresAt := Some newExpiresAt\<rparr>) w)))
                   (\<lambda>_. ret (access_token data))))))"

subsection \<open>searchPosts, postComment\<close>

definition searchPosts :: "external \<Rightarrow> string \<Rightarrow> string \<Rightarrow> string \<Rightarrow> RedditPost list io" where
  "searchPosts ext accessToken keywords timeRange =
     (let keywordList = filter (\<lambda>k. length k > 0) (map trim (split_comma keywords)) in
      if length keywordList = 0 then ret []
      else
        (let searchQuery = join '' OR '' keywordList;
             call = NetRedditSearch accessToken searchQuery timeRange 25 in
         bind (fetch call (reddit_search ext call))
           (\<lambda>response. case response of
               NotOk st txt \<Rightarrow> throw (''Failed to search posts: '' @ string_of_nat st)
             | Ok posts \<Rightarrow> ret posts)))"

definition postComment :: "external \<Rightarrow> string \<Rightarrow> string \<Rightarrow> string \<Rightarrow> string io" where
  "postComment ext accessToken postFullname text =
     (let call = NetRedditComment accessToken postFullname text in
      bind (fetch call (reddit_comment ext call))
        (\<lambda>response. case response of
            NotOk st errorText \<Rightarrow> throw (''Failed to post comment: '' @ errorText)
          | Ok commentName \<Rightarrow> ret (or_else commentName ''unknown'')))"

subsection \<open>generateReplyWithLLM\<close>

record styleOptions =
  noHashtags :: bool
  noEmojis :: bool
  noCapitalization :: bool
  badGrammar :: bool

definition styleInstructions :: "styleOptions \<Rightarrow> string list" where
  "styleInstructions so =
     (if noHashtags so then [''Do not use hashtags.''] else []) @
     (if noEmojis so then [''Do not use emojis.''] else []) @
     (if noCapitalization so then [''Use all lowercase letters.''] else []) @
     (if badGrammar so then [''Use casual grammar with minor typos.''] else [])"

text \<open>
  What both generators do with the answer of the chat-completion endpoint: an error
  body is thrown, a missing or blank content is thrown, the trimmed content is cut to its
  first 500 code units.
\<close>

definition llm_reply :: "llm_data reply \<Rightarrow> string io" where
  "llm_reply response =
     (case response of
        NotOk st err \<Rightarrow> throw (''OpenRouter error: '' @ err)
      | Ok data \<Rightarrow>
          required (map_option trim (llm_content data))
            (throw (''Empty response from LLM. Response: '' @ llm_raw data))
            (\<lambda>reply. ret (take 500 reply)))"

definition reddit_generateReplyWithLLM ::
  "external \<Rightarrow> string \<Rightarrow> string \<Rightarrow> string \<Rightarrow> string \<Rightarrow> string \<Rightarrow> string \<Rightarrow> string
    \<Rightarrow> styleOptions \<Rightarrow> string io" where
  "reddit_generateReplyWithLLM ext apiKey model systemPrompt postTitle postBody postAuthor
      subreddit so =
     (let fullSystemPrompt = join '' ''
            ([or_else (Some systemPrompt)
                ''You are a helpful Reddit user who provides thoughtful comments on posts.'',
              ''Keep your reply concise and relevant (under 500 characters).'',
              ''Be genuine and add value to the discussion.'',
              ''Match the tone of the subreddit - some are casual, some are more serious.'']
             @ styleInstructions so);
          postContent = ''Title: '' @ dq @ postTitle @ dq @
            (if postBody \<noteq> [] \<and> length (trim postBody) > 0
             then nl @ nl @ ''Post content:'' @ nl @
               (if length postBody > 500 then take 500 postBody @ ''...'' else postBody)
             else []);
          userMessage = ''Write a comment for this Reddit post in r/'' @ subreddit @
            '' by u/'' @ postAuthor @ '':'' @ nl @ nl @ postContent;
          call = NetOpenRouter apiKey model fullSystemPrompt userMessage in
      bind (fetch call (openrouter ext call)) llm_reply)"

subsection \<open>Filter, selection, record and prune\<close>

text \<open>\<open>n || d\<close> on a number.\<close>

definition num_or_else :: "int \<Rightarrow> int \<Rightarrow> int" where
  "num_or_else n d = (if n = 0 then d else n)"

definition eligiblePosts ::
  "string set \<Rightarrow> RedditConfiguration \<Rightarrow> RedditCredentials \<Rightarrow> RedditPost list \<Rightarrow> RedditPost list" where
  "eligiblePosts repliedPostIds cfg creds posts =
     filter (\<lambda>post.
        post_id post \<notin> repliedPostIds \<and>
        post_ups post \<ge> num_or_else (rcfg_minimumUpvotes cfg) 10 \<and>
        Some (post_author post) \<noteq> rc_username creds \<and>
        post_author post \<noteq> ''[deleted]'') posts"

definition sortedPosts :: "RedditPost list \<Rightarrow> RedditPost list" where
  "sortedPosts eligible = js_sort (\<lambda>a b. post_ups b - post_ups a) eligible"

text \<open>\<open>sortedPosts[0]\<close>, undefined on an empty array.\<close>

definition targetPost :: "RedditPost list \<Rightarrow> RedditPost option" where
  "targetPost eligible = (case sortedPosts eligible of [] \<Rightarrow> None | p # ps \<Rightarrow> Some p)"

text \<open>
  Row identifiers and the \<open>createdAt\<close> of a new row are given by the database (the schema
  is not among the sources): the model takes the successor of the largest identifier in
  the table, and reads \<open>createdAt\<close> from \<open>now_created\<close>, a parameter like the other clock
  readings. An update leaves both as they are.
\<close>

definition fresh_id :: "nat list \<Rightarrow> nat" where
  "fresh_id ids = Suc (foldr max ids 0)"

definition reddit_upsert ::
  "external \<Rightarrow> string \<Rightarrow> RedditPost \<Rightarrow> string \<Rightarrow> string \<Rightarrow> RedditInteraction list
    \<Rightarrow> RedditInteraction list" where
  "reddit_upsert ext accountId post generatedReply commentId rows =
     (if list_ex (\<lambda>i. ri_accountId i = accountId \<and> ri_postId i = post_id post) rows
      then map (\<lambda>i. if ri_accountId i = accountId \<and> ri_postId i = post_id post
                     then i\<lparr>ri_ourComment := generatedReply, ri_ourCommentId := commentId,
                            ri_repliedAt := now_replied ext\<rparr>
                     else i) rows
      else rows @
        [\<lparr>ri_id = fresh_id (map ri_id rows), ri_accountId = accountId,
          ri_postId = post_id post, ri_subreddit = post_subreddit post,
          ri_postTitle = post_title post, ri_postAuthor = post_author post,
          ri_postUrl = ''https://reddit.com'' @ post_permalink post,
          ri_upvotes = post_ups post, ri_commentCount = post_num_comments post,
          ri_ourComment = generatedReply, ri_ourCommentId = commentId,
          ri_repliedAt = now_replied ext, ri_createdAt = now_created ext\<rparr>])"

text \<open>
  \<open>findMany({ where: { accountId }, orderBy: { createdAt: "desc" }, skip: 100 })\<close>:
  the account's rows, newest first, without the first 100. Rows created at the same
  instant are taken in table order.
\<close>

definition oldInteractions :: "string \<Rightarrow> RedditInteraction list \<Rightarrow> RedditInteraction list" where
  "oldInteractions accountId rows =
     drop 100 (js_sort (\<lambda>a b. ri_createdAt b - ri_createdAt a)
                 (filter (\<lambda>i. ri_accountId i = accountId) rows))"

definition reddit_deleteMany :: "nat list \<Rightarrow> RedditInteraction list \<Rightarrow> RedditInteraction list" where
  "reddit_deleteMany ids rows = filter (\<lambda>i. ri_id i \<notin> set ids) rows"

definition reddit_store :: "external \<Rightarrow> string \<Rightarrow> RedditPost \<Rightarrow> string \<Rightarrow> string \<Rightarrow> unit io" where
  "reddit_store ext accountId post generatedReply commentId =
     bind (db ext (RedditInteractionUpsert accountId (post_id post))
             (\<lambda>w. ((), w\<lparr>redditInteractions :=
                  reddit_upsert ext accountId post generatedReply commentId
                    (redditInteractions w)\<rparr>)))
       (\<lambda>_. bind (db ext (RedditInteractionFindOld accountId)
                    (\<lambda>w. (oldInteractions accountId (redditInteractions w), w)))
          (\<lambda>old. if length old > 0
                  then db ext (RedditInteractionDeleteMany (map ri_id old))
                         (\<lambda>w. ((), w\<lparr>redditInteractions :=
                              reddit_deleteMany (map ri_id old) (redditInteractions w)\<rparr>))
                  else ret ()))"


subsection \<open>The POST handler, stage by stage\<close>

text \<open>
  \<open>cronSecret && cronSecret === process.env.CRON_SECRET && process.env.CRON_SECRET\<close>;
  \<open>session_user_id\<close> is \<open>session?.user?.id\<close> of the session \<open>auth()\<close> finds.
\<close>

definition isCronCall :: "external \<Rightarrow> request \<Rightarrow> bool" where
  "isCronCall ext req =
     (truthy (x_cron_secret req) \<and> x_cron_secret req = CRON_SECRET ext \<and> truthy (CRON_SECRET ext))"

definition reddit_find_account :: "external \<Rightarrow> request \<Rightarrow> string \<Rightarrow> Account option io" where
  "reddit_find_account ext req accountId =
     (if isCronCall ext req
      then db ext (AccountFindUnique accountId)
             (\<lambda>w. (find (\<lambda>a. acc_id a = accountId) (accounts w), w))
      else required (session_user_id ext) (respond (json (BError ''Unauthorized'') 401))
             (\<lambda>userId. db ext (AccountFindFirst accountId userId)
                (\<lambda>w. (find (\<lambda>a. acc_id a = accountId \<and> acc_userId a = userId) (accounts w), w))))"

definition reddit_token_stage :: "external \<Rightarrow> string \<Rightarrow> RedditCredentials \<Rightarrow> string \<Rightarrow> string io" where
  "reddit_token_stage ext accountId creds storedToken =
     try_catch
       (reddit_refreshTokenIfNeeded ext accountId (rc_clientId creds) (rc_clientSecret creds)
          storedToken (rc_refreshToken creds) (rc_tokenExpiresAt creds))
       (\<lambda>e. bind (createLog ext accountId Error (''Token refresh failed: '' @ e))
          (\<lambda>_. respond (json (BError ''Failed to refresh token'') 401)))"

definition reddit_search_stage ::
  "external \<Rightarrow> string \<Rightarrow> string \<Rightarrow> string \<Rightarrow> string \<Rightarrow> RedditPost list io" where
  "reddit_search_stage ext accountId accessToken keywords timeRange =
     try_catch
       (bind (searchPosts ext accessToken keywords timeRange)
          (\<lambda>posts. bind (createLog ext accountId Info
                (''Found '' @ string_of_nat (length posts) @ '' posts for keywords: '' @ dq @
                 keywords @ dq @ '' ('' @ timeRange @ '')''))
             (\<lambda>_. ret posts)))
       (\<lambda>e. bind (createLog ext accountId Error (''Failed to search posts: '' @ e))
          (\<lambda>_. respond (json (BError ''Failed to search posts'') 500)))"

definition reddit_select_stage ::
  "external \<Rightarrow> string \<Rightarrow> RedditCredentials \<Rightarrow> RedditConfiguration \<Rightarrow> RedditPost list
    \<Rightarrow> RedditPost io" where
  "reddit_select_stage ext accountId creds cfg posts =
     bind (db ext (RedditInteractionFindMany accountId)
             (\<lambda>w. (filter (\<lambda>i. ri_accountId i = accountId) (redditInteractions w), w)))
       (\<lambda>existingInteractions.
          (let repliedPostIds = set (map ri_postId existingInteractions);
               eligible = eligiblePosts repliedPostIds cfg creds posts in
           if length eligible = 0
           then bind (createLog ext accountId Info
                        ''No eligible posts found (all already replied or below threshold)'')
                  (\<lambda>_. respond (json (BNotReplied ''No eligible posts found'') 200))
           else (case targetPost eligible of
                   None \<Rightarrow>
                     bind (createLog ext accountId Info ''No eligible posts after sorting'')
                       (\<lambda>_. respond (json (BNotReplied ''No eligible posts found'') 200))
                 | Some tp \<Rightarrow>
                     bind (createLog ext accountId Info
                        (''Selected post: '' @ dq @ take 50 (post_title tp) @ ''...'' @ dq @
                         '' by u/'' @ post_author tp @ '' ('' @ string_of_int (post_ups tp) @
                         '' upvotes)''))
                       (\<lambda>_. ret tp))))"

definition reddit_generate_stage ::
  "external \<Rightarrow> string \<Rightarrow> OpenRouterCredentials \<Rightarrow> string \<Rightarrow> string \<Rightarrow> RedditPost \<Rightarrow> string io" where
  "reddit_generate_stage ext accountId oc apiKey model tp =
     try_catch
       (bind (reddit_generateReplyWithLLM ext apiKey model (or_else (or_systemPrompt oc) [])
                (post_title tp) (or_else (Some (post_selftext tp)) []) (post_author tp)
                (post_subreddit tp)
                \<lparr>noHashtags = or_noHashtags oc, noEmojis = or_noEmojis oc,
                 noCapitalization = or_noCapitalization oc, badGrammar = or_badGrammar oc\<rparr>)
          (\<lambda>generatedReply. bind (createLog ext accountId Info
                (''Generated reply: '' @ dq @ take 50 generatedReply @ ''...'' @ dq))
             (\<lambda>_. ret generatedReply)))
       (\<lambda>e. bind (createLog ext accountId Error (''LLM generation failed: '' @ e))
          (\<lambda>_. respond (json (BError ''Failed to generate reply'') 500)))"

definition reddit_publish_stage ::
  "external \<Rightarrow> string \<Rightarrow> string \<Rightarrow> RedditPost \<Rightarrow> string \<Rightarrow> string io" where
  "reddit_publish_stage ext accountId accessToken tp generatedReply =
     try_catch
       (bind (postComment ext accessToken (post_name tp) generatedReply)
          (\<lambda>commentId. bind (createLog ext accountId Success
                (''Posted comment on '' @ dq @ take 30 (post_title tp) @ ''...'' @ dq))
             (\<lambda>_. ret commentId)))
       (\<lambda>e. bind (createLog ext accountId Error (''Failed to post comment: '' @ e))
          (\<lambda>_. respond (json (BError ''Failed to post comment'') 500)))"

definition reddit_record_stage ::
  "external \<Rightarrow> string \<Rightarrow> RedditPost \<Rightarrow> string \<Rightarrow> string \<Rightarrow> unit io" where
  "reddit_record_stage ext accountId tp generatedReply commentId =
     try_catch (reddit_store ext accountId tp generatedReply commentId)
       (\<lambda>dbError. createLog ext accountId Warning
          ''Comment posted but failed to record in database'')"

definition reddit_pipeline ::
  "external \<Rightarrow> string \<Rightarrow> RedditCredentials \<Rightarrow> string \<Rightarrow> RedditConfiguration
    \<Rightarrow> OpenRouterCredentials \<Rightarrow> string \<Rightarrow> string \<Rightarrow> response io" where
  "reddit_pipeline ext accountId creds storedToken cfg oc apiKey model =
     bind (createLog ext accountId Info ''Starting Reddit pipeline'') (\<lambda>_.
     bind (reddit_token_stage ext accountId creds storedToken) (\<lambda>accessToken.
     bind (reddit_search_stage ext accountId accessToken (rcfg_keywords cfg)
             (or_else (Some (rcfg_timeRange cfg)) ''day'')) (\<lambda>posts.
     bind (reddit_select_stage ext accountId creds cfg posts) (\<lambda>tp.
     bind (reddit_generate_stage ext accountId oc apiKey model tp) (\<lambda>generatedReply.
     bind (reddit_publish_stage ext accountId accessToken tp generatedReply) (\<lambda>commentId.
     bind (reddit_record_stage ext accountId tp generatedReply commentId) (\<lambda>_.
     ret (json (BReplied (post_author tp) (post_title tp) generatedReply) 200))))))))"

definition reddit_validate :: "external \<Rightarrow> string \<Rightarrow> Account \<Rightarrow> response io" where
  "reddit_validate ext accountId account =
     (let notConnected =
            bind (createLog ext accountId Error ''Reddit OAuth not connected'')
              (\<lambda>_. respond (json (BError ''Reddit OAuth not connected'') 400));
          noKeywords =
            bind (createLog ext accountId Error ''No keywords configured'')
              (\<lambda>_. respond (json (BError ''No keywords configured'') 400));
          noApiKey =
            bind (createLog ext accountId Error ''OpenRouter API key not configured'')
              (\<lambda>_. respond (json (BError ''OpenRouter API key not configured'') 400));
          noModel =
            bind (createLog ext accountId Error ''No LLM model selected'')
              (\<lambda>_. respond (json (BError ''No LLM model selected'') 400)) in
      case redditCredentials account of
        None \<Rightarrow> notConnected
      | Some creds \<Rightarrow>
          required (rc_accessToken creds) notConnected (\<lambda>storedToken.
            case redditConfig account of
              None \<Rightarrow> noKeywords
            | Some cfg \<Rightarrow>
                if rcfg_keywords cfg = [] \<or> trim (rcfg_keywords cfg) = [] then noKeywords
                else (case openRouterCredentials account of
                        None \<Rightarrow> noApiKey
                      | Some oc \<Rightarrow>
                          required (or_apiKey oc) noApiKey (\<lambda>apiKey.
                            required (or_selectedModel oc) noModel (\<lambda>model.
                              reddit_pipeline ext accountId creds storedToken cfg oc apiKey
                                model)))))"

definition reddit_handler :: "external \<Rightarrow> request \<Rightarrow> response io" where
  "reddit_handler ext req =
     (case body_json req of
        None \<Rightarrow> throw ''Unexpected end of JSON input''
      | Some accountIdField \<Rightarrow>
          required accountIdField (respond (json (BError ''accountId is required'') 400))
            (\<lambda>accountId. bind (reddit_find_account ext req accountId)
               (\<lambda>account. case account of
                   None \<Rightarrow> respond (json (BError ''Account not found'') 404)
                 | Some a \<Rightarrow> reddit_validate ext accountId a)))"

text \<open>The outer \<open>try\<close>: whatever is thrown and not caught inside becomes a 500.\<close>

definition reddit_POST :: "external \<Rightarrow> request \<Rightarrow> world \<Rightarrow> response \<times> world" where
  "reddit_POST ext req w =
     (case reddit_handler ext req w of
        (Value r, w') \<Rightarrow> (r, w')
      | (Return r, w') \<Rightarrow> (r, w')
      | (Throw e, w') \<Rightarrow> (json (BError ''Pipeline failed'') 500, w'))"


section \<open>The YouTube pipeline\<close>

subsection \<open>The client library\<close>

record tokenResult =
  tr_accessToken :: string
  tr_refreshToken :: string
  tr_expiresAt :: date

definition youtube_refreshTokenIfNeeded ::
  "external \<Rightarrow> string \<Rightarrow> string \<Rightarrow> string option \<Rightarrow> string option \<Rightarrow> date option
    \<Rightarrow> tokenResult option io" where
  "youtube_refreshTokenIfNeeded ext clientId clientSecret accessToken refreshToken tokenExpiresAt =
     required accessToken (ret None) (\<lambda>storedToken.
     required refreshToken (ret None) (\<lambda>storedRefresh.
       (let fiveMinutesFromNow = now_token_check ext + 5 * 60 * 1000;
            call = NetGoogleToken clientId clientSecret storedRefresh;
            refresh =
              try_catch
                (bind (fetch call (google_token ext call))
                   (\<lambda>response. case response of
                       NotOk st err \<Rightarrow> ret None
                     | Ok data \<Rightarrow>
                         ret (Some \<lparr>tr_accessToken = g_access_token data,
                                    tr_refreshToken = or_else (g_refresh_token data) storedRefresh,
                                    tr_expiresAt =
                                      now_token_refreshed ext + g_expires_in data * 1000\<rparr>)))
                (\<lambda>e. ret None) in
        case tokenExpiresAt of
          None \<Rightarrow> refresh
        | Some expiresAt \<Rightarrow>
            if expiresAt > fiveMinutesFromNow
            then ret (Some \<lparr>tr_accessToken = storedToken, tr_refreshToken = storedRefresh,
                            tr_expiresAt = expiresAt\<rparr>)
            else refresh)))"

definition fetchChannelVideos :: "external \<Rightarrow> string \<Rightarrow> nat \<Rightarrow> YouTubeVideo list io" where
  "fetchChannelVideos ext accessToken maxResults =
     bind (fetch (NetYouTubeChannels accessToken)
             (youtube_channels ext (NetYouTubeChannels accessToken)))
       (\<lambda>channelResponse. case channelResponse of
           NotOk st txt \<Rightarrow> throw (''Failed to fetch channel: '' @ string_of_nat st)
         | Ok uploads \<Rightarrow>
             required uploads (throw ''Could not find uploads playlist'')
               (\<lambda>uploadsPlaylistId.
                  (let call = NetYouTubePlaylistItems accessToken uploadsPlaylistId maxResults in
                   bind (fetch call (youtube_playlistItems ext call))
                     (\<lambda>playlistResponse. case playlistResponse of
                         NotOk st txt \<Rightarrow> throw (''Failed to fetch playlist: '' @ string_of_nat st)
                       | Ok videos \<Rightarrow> ret videos))))"

definition comment_of_thread :: "string \<Rightarrow> string \<Rightarrow> thread \<Rightarrow> YouTubeComment" where
  "comment_of_thread vid vtitle t =
     \<lparr>cm_commentId = t_id t, cm_videoId = vid, cm_videoTitle = vtitle,
      cm_userComment = t_textDisplay t, cm_authorName = t_authorDisplayName t,
      cm_authorChannelId = or_else (t_authorChannelId t) [],
      cm_likeCount = (case t_likeCount t of None \<Rightarrow> 0 | Some n \<Rightarrow> n),
      cm_publishedAt = t_publishedAt t\<rparr>"

definition fetchVideoComments ::
  "external \<Rightarrow> string \<Rightarrow> string \<Rightarrow> string \<Rightarrow> YouTubeComment list io" where
  "fetchVideoComments ext accessToken vid vtitle =
     (let call = NetYouTubeCommentThreads accessToken vid 50 in
      bind (fetch call (youtube_commentThreads ext call))
        (\<lambda>response. case response of
            NotOk st txt \<Rightarrow>
              if st = 403 then ret []
              else throw (''Failed to fetch comments: '' @ string_of_nat st)
          | Ok items \<Rightarrow>
              (let sevenDaysAgo = now_comments ext - 7 * 24 * 60 * 60 * 1000 in
               ret (map (comment_of_thread vid vtitle)
                      (filter (\<lambda>t. \<not> t_publishedAt t < sevenDaysAgo) items)))))"

definition postCommentReply :: "external \<Rightarrow> string \<Rightarrow> string \<Rightarrow> string \<Rightarrow> string io" where
  "postCommentReply ext accessToken parentCommentId replyText =
     (let call = NetYouTubeCommentInsert accessToken parentCommentId replyText in
      bind (fetch call (youtube_commentInsert ext call))
        (\<lambda>response. case response of
            NotOk st err \<Rightarrow> throw (''Failed to post reply: '' @ err)
          | Ok replyId \<Rightarrow> ret replyId))"

subsection \<open>generateReplyWithLLM\<close>

definition youtube_generateReplyWithLLM ::
  "external \<Rightarrow> string \<Rightarrow> string \<Rightarrow> string \<Rightarrow> string \<Rightarrow> string \<Rightarrow> string \<Rightarrow> styleOptions
    \<Rightarrow> string io" where
  "youtube_generateReplyWithLLM ext apiKey model systemPrompt commentContent author vtitle so =
     (let fullSystemPrompt = join '' ''
            ([or_else (Some systemPrompt)
                ''You are a friendly YouTube creator responding to comments on your videos.'',
              ''Keep your reply concise and engaging (under 500 characters).'',
              ''Be appreciative and conversational.'']
             @ styleInstructions so);
          userMessage = ''Write a reply to this YouTube comment from '' @ author @
            '' on your video '' @ dq @ vtitle @ dq @ '':'' @ nl @ nl @ dq @ commentContent @ dq;
          call = NetOpenRouter apiKey model fullSystemPrompt userMessage in
      bind (fetch call (openrouter ext call)) llm_reply)"

subsection \<open>Filter, selection, record and prune\<close>

text \<open>\<open>youtubeConfig?.minimumLikesCount ?? 5\<close>\<close>

definition minimumLikesCount :: "YouTubeConfiguration option \<Rightarrow> int" where
  "minimumLikesCount cfg = (case cfg of None \<Rightarrow> 5 | Some c \<Rightarrow> ycfg_minimumLikesCount c)"

definition filteredComments :: "int \<Rightarrow> YouTubeComment list \<Rightarrow> YouTubeComment list" where
  "filteredComments minLikes comments = filter (\<lambda>c. cm_likeCount c \<ge> minLikes) comments"

text \<open>The loop over the videos: a video whose comments cannot be fetched is skipped.\<close>

fun allComments_loop ::
  "external \<Rightarrow> string \<Rightarrow> int \<Rightarrow> YouTubeVideo list \<Rightarrow> YouTubeComment list
    \<Rightarrow> YouTubeComment list io" where
  "allComments_loop ext accessToken minLikes [] allComments = ret allComments"
| "allComments_loop ext accessToken minLikes (video # videos) allComments =
     bind (try_catch
             (bind (fetchVideoComments ext accessToken (v_videoId video) (v_title video))
                (\<lambda>comments. ret (allComments @ filteredComments minLikes comments)))
             (\<lambda>e. ret allComments))
       (\<lambda>allComments'. allComments_loop ext accessToken minLikes videos allComments')"

definition unrepliedComments ::
  "YouTubeCommentInteraction list \<Rightarrow> YouTubeComment list \<Rightarrow> YouTubeComment list" where
  "unrepliedComments existingInteractions allComments =
     (let repliedCommentIds =
            set (map yi_commentId (filter (\<lambda>i. truthy (yi_ourReply i)) existingInteractions)) in
      filter (\<lambda>c. cm_commentId c \<notin> repliedCommentIds) allComments)"

definition bestComment :: "YouTubeComment list \<Rightarrow> YouTubeComment option" where
  "bestComment unreplied =
     (case js_sort (\<lambda>a b. cm_likeCount b - cm_likeCount a) unreplied of
        [] \<Rightarrow> None
      | c # cs \<Rightarrow> Some c)"

definition youtube_upsert ::
  "external \<Rightarrow> string \<Rightarrow> YouTubeComment \<Rightarrow> string \<Rightarrow> string \<Rightarrow> YouTubeCommentInteraction list
    \<Rightarrow> YouTubeCommentInteraction list" where
  "youtube_upsert ext accountId c generatedReply replyId rows =
     (if list_ex (\<lambda>i. yi_accountId i = accountId \<and> yi_commentId i = cm_commentId c) rows
      then map (\<lambda>i. if yi_accountId i = accountId \<and> yi_commentId i = cm_commentId c
                     then i\<lparr>yi_videoId := cm_videoId c, yi_videoTitle := cm_videoTitle c,
                            yi_userComment := cm_userComment c, yi_authorName := cm_authorName c,
                            yi_authorChannelId := cm_authorChannelId c,
                            yi_likeCount := cm_likeCount c, yi_ourReply := Some generatedReply,
                            yi_ourReplyId := Some replyId, yi_repliedAt := now_replied ext\<rparr>
                     else i) rows
      else rows @
        [\<lparr>yi_id = fresh_id (map yi_id rows), yi_accountId = accountId,
          yi_commentId = cm_commentId c, yi_videoId = cm_videoId c,
          yi_videoTitle = cm_videoTitle c, yi_userComment = cm_userComment c,
          yi_authorName = cm_authorName c, yi_authorChannelId = cm_authorChannelId c,
          yi_likeCount = cm_likeCount c, yi_ourReply = Some generatedReply,
          yi_ourReplyId = Some replyId, yi_repliedAt = now_replied ext,
          yi_createdAt = now_created ext\<rparr>])"

text \<open>\<open>deleteMany({ where: { accountId, createdAt: { lt: fourteenDaysAgo } } })\<close>\<close>

definition youtube_deleteMany ::
  "string \<Rightarrow> date \<Rightarrow> YouTubeCommentInteraction list \<Rightarrow> YouTubeCommentInteraction list" where
  "youtube_deleteMany accountId fourteenDaysAgo rows =
     filter (\<lambda>i. \<not> (yi_accountId i = accountId \<and> yi_createdAt i < fourteenDaysAgo)) rows"

definition youtube_store ::
  "external \<Rightarrow> string \<Rightarrow> YouTubeComment \<Rightarrow> string \<Rightarrow> string \<Rightarrow> unit io" where
  "youtube_store ext accountId c generatedReply replyId =
     bind (db ext (YouTubeInteractionUpsert accountId (cm_commentId c))
             (\<lambda>w. ((), w\<lparr>youtubeInteractions :=
                  youtube_upsert ext accountId c generatedReply replyId
                    (youtubeInteractions w)\<rparr>)))
       (\<lambda>_. (let fourteenDaysAgo = now_prune ext - 14 * 24 * 60 * 60 * 1000 in
              db ext (YouTubeInteractionDeleteMany accountId fourteenDaysAgo)
                (\<lambda>w. ((), w\<lparr>youtubeInteractions :=
                     youtube_deleteMany accountId fourteenDaysAgo (youtubeInteractions w)\<rparr>))))"


subsection \<open>The POST handler, stage by stage\<close>

definition update_youtube_credentials ::
  "string \<Rightarrow> (YouTubeCredentials \<Rightarrow> YouTubeCredentials) \<Rightarrow> world \<Rightarrow> world" where
  "update_youtube_credentials accountId f w =
     w\<lparr>accounts := map (\<lambda>a. if acc_id a = accountId
                               then a\<lparr>youtubeCredentials := map_option f (youtubeCredentials a)\<rparr>
                               else a) (accounts w)\<rparr>"

definition youtube_token_stage :: "external \<Rightarrow> string \<Rightarrow> YouTubeCredentials \<Rightarrow> string io" where
  "youtube_token_stage ext accountId creds =
     bind (youtube_refreshTokenIfNeeded ext (yc_clientId creds) (yc_clientSecret creds)
             (yc_accessToken creds) (yc_refreshToken creds) (yc_tokenExpiresAt creds))
       (\<lambda>result. case result of
           None \<Rightarrow>
             bind (createLog ext accountId Error ''Failed to get valid access token'')
               (\<lambda>_. respond (json (BError ''YouTube authentication failed'') 401))
         | Some tr \<Rightarrow>
             bind (if Some (tr_accessToken tr) \<noteq> yc_accessToken creds
                   then db ext (YouTubeCredentialsUpdate accountId)
                          (\<lambda>w. ((), update_youtube_credentials accountId
                               (\<lambda>c. c\<lparr>yc_accessToken := Some (tr_accessToken tr),
                                       yc_refreshToken := Some (tr_refreshToken tr),
                                       yc_tokenExpiresAt := Some (tr_expiresAt tr)\<rparr>) w))
                   else ret ())
               (\<lambda>_. ret (tr_accessToken tr)))"

definition youtube_videos_stage :: "external \<Rightarrow> string \<Rightarrow> string \<Rightarrow> YouTubeVideo list io" where
  "youtube_videos_stage ext accountId accessToken =
     bind (try_catch (fetchChannelVideos ext accessToken 5)
             (\<lambda>message. bind (createLog ext accountId Error message)
                (\<lambda>_. respond (json (BError message) 500))))
       (\<lambda>videos.
          if length videos = 0
          then bind (createLog ext accountId Warning ''No videos found on channel'')
                 (\<lambda>_. respond (json (BSuccessNotReplied ''No videos found on channel'') 200))
          else bind (createLog ext accountId Info
                       (''Found '' @ string_of_nat (length videos) @ '' videos''))
                 (\<lambda>_. ret videos))"

definition youtube_comments_stage ::
  "external \<Rightarrow> string \<Rightarrow> Account \<Rightarrow> string \<Rightarrow> YouTubeVideo list \<Rightarrow> YouTubeComment list io" where
  "youtube_comments_stage ext accountId account accessToken videos =
     (let minLikes = minimumLikesCount (youtubeConfig account) in
      bind (allComments_loop ext accessToken minLikes videos [])
        (\<lambda>allComments.
           if length allComments = 0
           then bind (createLog ext accountId Warning
                        (''No comments found with at least '' @ string_of_int minLikes @ '' likes''))
                  (\<lambda>_. respond (json (BSuccessNotReplied ''No comments found matching criteria'') 200))
           else bind (createLog ext accountId Info
                        (''Found '' @ string_of_nat (length allComments) @ '' comments with '' @
                         string_of_int minLikes @ ''+ likes''))
                  (\<lambda>_. ret allComments)))"

definition youtube_select_stage ::
  "external \<Rightarrow> string \<Rightarrow> YouTubeComment list \<Rightarrow> YouTubeComment io" where
  "youtube_select_stage ext accountId allComments =
     bind (db ext (YouTubeInteractionFindMany accountId (map cm_commentId allComments))
             (\<lambda>w. (filter (\<lambda>i. yi_accountId i = accountId \<and>
                                 yi_commentId i \<in> set (map cm_commentId allComments))
                      (youtubeInteractions w), w)))
       (\<lambda>existingInteractions.
          (let unreplied = unrepliedComments existingInteractions allComments in
           if length unreplied = 0
           then bind (createLog ext accountId Warning ''All found comments have been replied to'')
                  (\<lambda>_. respond (json (BSuccessNotReplied
                           ''All found comments have been replied to already'') 200))
           else (case bestComment unreplied of
                   None \<Rightarrow> throw ''Cannot read properties of undefined''
                 | Some best \<Rightarrow>
                     bind (createLog ext accountId Info
                        (''Selected comment by '' @ cm_authorName best @ '' ('' @
                         string_of_int (cm_likeCount best) @ '' likes) on '' @ dq @
                         cm_videoTitle best @ dq))
                       (\<lambda>_. ret best))))"

definition youtube_generate_stage ::
  "external \<Rightarrow> string \<Rightarrow> OpenRouterCredentials \<Rightarrow> string \<Rightarrow> string \<Rightarrow> YouTubeComment \<Rightarrow> string io" where
  "youtube_generate_stage ext accountId oc apiKey model best =
     bind (try_catch
             (youtube_generateReplyWithLLM ext apiKey model (or_else (or_systemPrompt oc) [])
                (cm_userComment best) (cm_authorName best) (cm_videoTitle best)
                \<lparr>noHashtags = or_noHashtags oc, noEmojis = or_noEmojis oc,
                 noCapitalization = or_noCapitalization oc, badGrammar = or_badGrammar oc\<rparr>)
             (\<lambda>message. bind (createLog ext accountId Error (''LLM error: '' @ message))
                (\<lambda>_. respond (json (BError message) 500))))
       (\<lambda>generatedReply. bind (createLog ext accountId Info
             (''Generated reply: '' @ dq @ take 50 generatedReply @ ''...'' @ dq))
          (\<lambda>_. ret generatedReply))"

definition youtube_publish_stage ::
  "external \<Rightarrow> string \<Rightarrow> string \<Rightarrow> YouTubeComment \<Rightarrow> string \<Rightarrow> string io" where
  "youtube_publish_stage ext accountId accessToken best generatedReply =
     bind (try_catch (postCommentReply ext accessToken (cm_commentId best) generatedReply)
             (\<lambda>message. bind (createLog ext accountId Error (''YouTube API error: '' @ message))
                (\<lambda>_. respond (json (BError message) 500))))
       (\<lambda>replyId. bind (createLog ext accountId Success
             (''Posted reply to '' @ cm_authorName best))
          (\<lambda>_. ret replyId))"

definition youtube_pipeline ::
  "external \<Rightarrow> string \<Rightarrow> Account \<Rightarrow> YouTubeCredentials \<Rightarrow> OpenRouterCredentials \<Rightarrow> string
    \<Rightarrow> string \<Rightarrow> response io" where
  "youtube_pipeline ext accountId account creds oc apiKey model =
     bind (createLog ext accountId Info ''YouTube pipeline started'') (\<lambda>_.
     bind (youtube_token_stage ext accountId creds) (\<lambda>accessToken.
     bind (youtube_videos_stage ext accountId accessToken) (\<lambda>videos.
     bind (youtube_comments_stage ext accountId account accessToken videos) (\<lambda>allComments.
     bind (youtube_select_stage ext accountId allComments) (\<lambda>best.
     bind (youtube_generate_stage ext accountId oc apiKey model best) (\<lambda>generatedReply.
     bind (youtube_publish_stage ext accountId accessToken best generatedReply) (\<lambda>replyId.
     bind (youtube_store ext accountId best generatedReply replyId) (\<lambda>_.
     ret (json (BSuccessReplied (cm_authorName best) (cm_commentId best) (cm_videoTitle best)
                  replyId generatedReply) 200)))))))))"

definition youtube_validate :: "external \<Rightarrow> string \<Rightarrow> Account \<Rightarrow> response io" where
  "youtube_validate ext accountId account =
     (let notConnected =
            bind (createLog ext accountId Error ''YouTube OAuth not connected'')
              (\<lambda>_. respond (json (BError ''YouTube OAuth not connected'') 400));
          notLinked =
            bind (createLog ext accountId Error ''YouTube channel not linked'')
              (\<lambda>_. respond (json (BError ''YouTube channel not linked'') 400));
          noApiKey =
            bind (createLog ext accountId Error ''OpenRouter API key not configured'')
              (\<lambda>_. respond (json (BError ''OpenRouter API key not configured'') 400));
          noModel =
            bind (createLog ext accountId Error ''No LLM model selected'')
              (\<lambda>_. respond (json (BError ''No LLM model selected'') 400)) in
      case youtubeCredentials account of
        None \<Rightarrow> notConnected
      | Some creds \<Rightarrow>
          required (yc_accessToken creds) notConnected (\<lambda>storedToken.
            required (yc_channelId creds) notLinked (\<lambda>channelId.
              case openRouterCredentials account of
                None \<Rightarrow> noApiKey
              | Some oc \<Rightarrow>
                  required (or_apiKey oc) noApiKey (\<lambda>apiKey.
                    required (or_selectedModel oc) noModel (\<lambda>model.
                      youtube_pipeline ext accountId account creds oc apiKey model)))))"

text \<open>The handler reads the body only: no header and no session.\<close>

definition youtube_handler :: "external \<Rightarrow> request \<Rightarrow> response io" where
  "youtube_handler ext req =
     (case body_json req of
        None \<Rightarrow> throw ''Unexpected end of JSON input''
      | Some accountIdField \<Rightarrow>
          required accountIdField (respond (json (BError ''accountId is required'') 400))
            (\<lambda>accountId. bind (db ext (AccountFindUnique accountId)
                  (\<lambda>w. (find (\<lambda>a. acc_id a = accountId) (accounts w), w)))
               (\<lambda>account. case account of
                   None \<Rightarrow> respond (json (BError ''Account not found'') 404)
                 | Some a \<Rightarrow> youtube_validate ext accountId a)))"

definition youtube_POST :: "external \<Rightarrow> request \<Rightarrow> world \<Rightarrow> response \<times> world" where
  "youtube_POST ext req w =
     (case youtube_handler ext req w of
        (Value r, w') \<Rightarrow> (r, w')
      | (Return r, w') \<Rightarrow> (r, w')
      | (Throw e, w') \<Rightarrow> (json (BError ''Pipeline failed unexpectedly'') 500, w'))"


section \<open>Vocabulary of the properties\<close>

text \<open>The calls a run has made: what it appended to the trace.\<close>

definition new_calls :: "world \<Rightarrow> world \<Rightarrow> net_call list" where
  "new_calls w w' = drop (length (net w)) (net w')"

text \<open>A body that reports a finished run, with or without a reply; the other bodies are errors.\<close>

definition completed :: "body \<Rightarrow> bool" where
  "completed b = (case b of BError msg \<Rightarrow> False | _ \<Rightarrow> True)"

definition status_class :: "response \<Rightarrow> bool" where
  "status_class r =
     (if completed (body r) then status r = 200 else status r \<in> {400, 401, 404, 500})"

definition short_body :: "body \<Rightarrow> bool" where
  "short_body b =
     (case b of
        BReplied repliedTo title comment \<Rightarrow> length comment \<le> 500
      | BSuccessReplied repliedTo cid title rid reply \<Rightarrow> length reply \<le> 500
      | _ \<Rightarrow> True)"

definition short_call :: "net_call \<Rightarrow> bool" where
  "short_call c =
     (case c of
        NetRedditComment tok thing text \<Rightarrow> length text \<le> 500
      | NetYouTubeCommentInsert tok parent text \<Rightarrow> length text \<le> 500
      | _ \<Rightarrow> True)"

definition short_reply :: "string option \<Rightarrow> bool" where
  "short_reply r = (case r of None \<Rightarrow> True | Some x \<Rightarrow> length x \<le> 500)"

definition sound_response :: "response \<Rightarrow> bool" where
  "sound_response r = (status_class r \<and> short_body (body r))"

text \<open>
  \<open>grows w w'\<close>: the trace of \<open>w'\<close> extends that of \<open>w\<close> by calls that publish at most
  500 code units, and every interaction row of \<open>w'\<close> that is not a row of \<open>w\<close> holds a
  reply of at most 500 code units.
\<close>

definition grows :: "world \<Rightarrow> world \<Rightarrow> bool" where
  "grows w w' =
     ((\<exists>new. net w' = net w @ new \<and> list_all short_call new) \<and>
      list_all (\<lambda>i. i \<in> set (redditInteractions w) \<or> length (ri_ourComment i) \<le> 500)
        (redditInteractions w') \<and>
      list_all (\<lambda>i. i \<in> set (youtubeInteractions w) \<or> short_reply (yi_ourReply i))
        (youtubeInteractions w'))"

text \<open>
  \<open>ensures R P Q m\<close>: from any world, \<open>m\<close> ends in a world related by \<open>R\<close>; a value
  it yields satisfies \<open>Q\<close> and a response it returns satisfies \<open>P\<close>.
\<close>

definition holds :: "(response \<Rightarrow> bool) \<Rightarrow> ('a \<Rightarrow> bool) \<Rightarrow> 'a outcome \<Rightarrow> bool" where
  "holds P Q out = (case out of Value a \<Rightarrow> Q a | Throw e \<Rightarrow> True | Return r \<Rightarrow> P r)"

definition ensures ::
  "(world \<Rightarrow> world \<Rightarrow> bool) \<Rightarrow> (response \<Rightarrow> bool) \<Rightarrow> ('a \<Rightarrow> bool) \<Rightarrow> 'a io \<Rightarrow> bool" where
  "ensures R P Q m = (\<forall>w. R w (snd (m w)) \<and> holds P Q (fst (m w)))"

definition refl_trans :: "(world \<Rightarrow> world \<Rightarrow> bool) \<Rightarrow> bool" where
  "refl_trans R = ((\<forall>w. R w w) \<and> (\<forall>a b c. R a b \<longrightarrow> R b c \<longrightarrow> R a c))"

text \<open>The log table takes every entry of this account.\<close>

definition log_ok :: "external \<Rightarrow> string \<Rightarrow> bool" where
  "log_ok ext accountId = (\<forall>lvl msg. db_throws ext (LogCreate accountId lvl msg) = None)"

text \<open>The request names an account and the handler's lookup finds it.\<close>

definition reddit_admitted :: "external \<Rightarrow> request \<Rightarrow> world \<Rightarrow> string \<Rightarrow> Account \<Rightarrow> bool" where
  "reddit_admitted ext req w accountId account =
     (body_json req = Some (Some accountId) \<and> accountId \<noteq> [] \<and>
      reddit_find_account ext req accountId w = (Value (Some account), w))"

definition youtube_admitted :: "external \<Rightarrow> request \<Rightarrow> world \<Rightarrow> string \<Rightarrow> Account \<Rightarrow> bool" where
  "youtube_admitted ext req w accountId account =
     (body_json req = Some (Some accountId) \<and> accountId \<noteq> [] \<and>
      db_throws ext (AccountFindUnique accountId) = None \<and>
      find (\<lambda>a. acc_id a = accountId) (accounts w) = Some account)"

text \<open>The account passes the handler's four checks, with these values.\<close>

definition reddit_validated ::
  "Account \<Rightarrow> RedditCredentials \<Rightarrow> string \<Rightarrow> RedditConfiguration \<Rightarrow> OpenRouterCredentials
    \<Rightarrow> string \<Rightarrow> string \<Rightarrow> bool" where
  "reddit_validated account creds storedToken cfg oc apiKey model =
     (redditCredentials account = Some creds \<and>
      rc_accessToken creds = Some storedToken \<and> storedToken \<noteq> [] \<and>
      redditConfig account = Some cfg \<and> trim (rcfg_keywords cfg) \<noteq> [] \<and>
      openRouterCredentials account = Some oc \<and>
      or_apiKey oc = Some apiKey \<and> apiKey \<noteq> [] \<and>
      or_selectedModel oc = Some model \<and> model \<noteq> [])"

definition youtube_validated ::
  "Account \<Rightarrow> YouTubeCredentials \<Rightarrow> string \<Rightarrow> OpenRouterCredentials \<Rightarrow> string \<Rightarrow> string \<Rightarrow> bool" where
  "youtube_validated account creds storedToken oc apiKey model =
     (youtubeCredentials account = Some creds \<and>
      yc_accessToken creds = Some storedToken \<and> storedToken \<noteq> [] \<and>
      truthy (yc_channelId creds) \<and>
      openRouterCredentials account = Some oc \<and>
      or_apiKey oc = Some apiKey \<and> apiKey \<noteq> [] \<and>
      or_selectedModel oc = Some model \<and> model \<noteq> [])"



text \<open>The world once the opening log entry of a pipeline is written.\<close>

definition started :: "string \<Rightarrow> string \<Rightarrow> world \<Rightarrow> world" where
  "started accountId message w =
     w\<lparr>logs := logs w @
        [\<lparr>log_accountId = accountId, log_level = Info, log_message = message\<rparr>]\<rparr>"

section \<open>Example inputs\<close>

definition ex_post :: "string \<Rightarrow> string \<Rightarrow> int \<Rightarrow> RedditPost" where
  "ex_post pid author n =
     \<lparr>post_id = pid, post_name = ''t3_'' @ pid, post_title = ''On cats'', post_selftext = [],
      post_author = author, post_subreddit = ''cats'', post_url = ''https://example.org'',
      post_permalink = ''/r/cats/'' @ pid, post_ups = n, post_num_comments = 2,
      post_created_utc = 0\<rparr>"

definition ex_reddit_credentials :: RedditCredentials where
  "ex_reddit_credentials =
     \<lparr>rc_clientId = ''cid'', rc_clientSecret = ''sec'', rc_accessToken = Some ''tok'',
      rc_refreshToken = Some ''ref'', rc_tokenExpiresAt = Some 1000000,
      rc_username = Some ''me''\<rparr>"

definition ex_reddit_config :: RedditConfiguration where
  "ex_reddit_config =
     \<lparr>rcfg_keywords = ''cats'', rcfg_timeRange = ''day'', rcfg_minimumUpvotes = 10\<rparr>"

definition ex_openrouter :: OpenRouterCredentials where
  "ex_openrouter =
     \<lparr>or_apiKey = Some ''key'', or_selectedModel = Some ''model'', or_systemPrompt = None,
      or_noHashtags = False, or_noEmojis = False, or_noCapitalization = False,
      or_badGrammar = False\<rparr>"

definition ex_youtube_credentials :: YouTubeCredentials where
  "ex_youtube_credentials =
     \<lparr>yc_clientId = ''cid'', yc_clientSecret = ''sec'', yc_accessToken = Some ''ytok'',
      yc_refreshToken = Some ''yref'', yc_tokenExpiresAt = Some 1000000,
      yc_channelId = Some ''UCme''\<rparr>"

definition ex_account :: Account where
  "ex_account =
     \<lparr>acc_id = ''a1'', acc_userId = ''u1'', redditCredentials = Some ex_reddit_credentials,
      redditConfig = Some ex_reddit_config, youtubeCredentials = Some ex_youtube_credentials,
      youtubeConfig = None, openRouterCredentials = Some ex_openrouter\<rparr>"

text \<open>A comment the channel's owner wrote under an own video.\<close>

definition ex_thread :: thread where
  "ex_thread =
     \<lparr>t_id = ''c1'', t_textDisplay = ''first'', t_authorDisplayName = ''Me'',
      t_authorChannelId = Some ''UCme'', t_likeCount = Some 9, t_publishedAt = 0\<rparr>"

text \<open>
  An outside world in which everything answers: the clock reads 0, the stored tokens
  expire at 1000000, two posts tie at 20 upvotes, the language model answers \<open>" nice "\<close>.
\<close>

definition ex_external :: external where
  "ex_external =
     \<lparr>CRON_SECRET = Some ''s3cret'', session_user_id = None, db_throws = (\<lambda>c. None),
      now_token_check = 0, now_token_refreshed = 0, now_comments = 0, now_replied = 0,
      now_created = 0, now_prune = 0,
      reddit_token = (\<lambda>c. Resolves (NotOk 400 [])),
      reddit_search = (\<lambda>c. Resolves (Ok [ex_post ''p1'' ''ann'' 20, ex_post ''p2'' ''bob'' 20])),
      reddit_comment = (\<lambda>c. Resolves (Ok (Some ''t1_x''))),
      openrouter = (\<lambda>c. Resolves (Ok \<lparr>llm_content = Some '' nice '', llm_raw = []\<rparr>)),
      google_token = (\<lambda>c. Resolves (NotOk 400 [])),
      youtube_channels = (\<lambda>c. Resolves (Ok (Some ''UU1''))),
      youtube_playlistItems = (\<lambda>c. Resolves (Ok [\<lparr>v_videoId = ''v1'', v_title = ''Video''\<rparr>])),
      youtube_commentThreads = (\<lambda>c. Resolves (Ok [ex_thread])),
      youtube_commentInsert = (\<lambda>c. Resolves (Ok ''r1''))\<rparr>"

definition ex_world :: world where
  "ex_world = \<lparr>accounts = [ex_account], redditInteractions = [], youtubeInteractions = [],
               logs = [], net = []\<rparr>"

text \<open>A call of the scheduler, and a call with neither the secret nor a session.\<close>

definition ex_request :: request where
  "ex_request = \<lparr>body_json = Some (Some ''a1''), x_cron_secret = Some ''s3cret''\<rparr>"

definition ex_anonymous_request :: request where
  "ex_anonymous_request = \<lparr>body_json = Some (Some ''a1''), x_cron_secret = None\<rparr>"

text \<open>The interaction table is down when the YouTube run writes its row.\<close>

definition ex_upsert_fails :: "db_call \<Rightarrow> string option" where
  "ex_upsert_fails c =
     (case c of
        YouTubeInteractionUpsert a cid \<Rightarrow> Some ''connection lost''
      | RedditInteractionUpsert a pid \<Rightarrow> Some ''connection lost''
      | _ \<Rightarrow> None)"

text \<open>A full interaction table: 101 rows of the account, row \<open>n\<close> created at instant \<open>n\<close>.\<close>

definition ex_row :: "nat \<Rightarrow> RedditInteraction" where
  "ex_row n =
     \<lparr>ri_id = n, ri_accountId = ''a1'', ri_postId = replicate n CHR ''x'',
      ri_subreddit = ''cats'', ri_postTitle = ''Old'', ri_postAuthor = ''ann'',
      ri_postUrl = [], ri_upvotes = 20, ri_commentCount = 0, ri_ourComment = ''hi'',
      ri_ourCommentId = ''t1_o'', ri_repliedAt = int n, ri_createdAt = int n\<rparr>"

definition ex_full_world :: world where
  "ex_full_world = ex_world\<lparr>redditInteractions := map ex_row [0..<101]\<rparr>"

text \<open>A YouTube row created 20 days before instant 0.\<close>

definition ex_stale_row :: YouTubeCommentInteraction where
  "ex_stale_row =
     \<lparr>yi_id = 0, yi_accountId = ''a1'', yi_commentId = ''c0'', yi_videoId = ''v1'',
      yi_videoTitle = ''Video'', yi_userComment = ''old'', yi_authorName = ''Zed'',
      yi_authorChannelId = ''UCzed'', yi_likeCount = 7, yi_ourReply = Some ''thanks'',
      yi_ourReplyId = Some ''r0'', yi_repliedAt = - 1728000000, yi_createdAt = - 1728000000\<rparr>"

definition ex_stale_world :: world where
  "ex_stale_world = ex_world\<lparr>youtubeInteractions := [ex_stale_row]\<rparr>"

text \<open>The language model answers with 600 characters.\<close>

definition ex_long_answer :: "net_call \<Rightarrow> llm_data http" where
  "ex_long_answer c =
     Resolves (Ok \<lparr>llm_content = Some (replicate 600 CHR ''a''), llm_raw = []\<rparr>)"

text \<open>The example world with other stored credentials.\<close>

definition ex_account_with :: "RedditCredentials \<Rightarrow> YouTubeCredentials \<Rightarrow> Account" where
  "ex_account_with rc yc =
     ex_account\<lparr>redditCredentials := Some rc, youtubeCredentials := Some yc\<rparr>"

definition ex_world_with :: "RedditCredentials \<Rightarrow> YouTubeCredentials \<Rightarrow> world" where
  "ex_world_with rc yc = ex_world\<lparr>accounts := [ex_account_with rc yc]\<rparr>"

text \<open>
  Credentials without a refresh token whose access token is still valid, credentials
  without a refresh token whose expiry is unknown, credentials with a refresh token
  whose expiry is unknown, and credentials of an account that is not connected.
\<close>

definition ex_reddit_no_refresh :: RedditCredentials where
  "ex_reddit_no_refresh = ex_reddit_credentials\<lparr>rc_refreshToken := None\<rparr>"

definition ex_reddit_no_refresh_expired :: RedditCredentials where
  "ex_reddit_no_refresh_expired =
     ex_reddit_credentials\<lparr>rc_refreshToken := None, rc_tokenExpiresAt := None\<rparr>"

definition ex_youtube_no_refresh :: YouTubeCredentials where
  "ex_youtube_no_refresh = ex_youtube_credentials\<lparr>yc_refreshToken := None\<rparr>"

definition ex_reddit_expired :: RedditCredentials where
  "ex_reddit_expired = ex_reddit_credentials\<lparr>rc_tokenExpiresAt := None\<rparr>"

definition ex_youtube_expired :: YouTubeCredentials where
  "ex_youtube_expired = ex_youtube_credentials\<lparr>yc_tokenExpiresAt := None\<rparr>"

definition ex_reddit_disconnected :: RedditCredentials where
  "ex_reddit_disconnected =
     ex_reddit_credentials\<lparr>rc_accessToken := None, rc_refreshToken := None,
       rc_tokenExpiresAt := None\<rparr>"

definition ex_youtube_disconnected :: YouTubeCredentials where
  "ex_youtube_disconnected =
     ex_youtube_credentials\<lparr>yc_accessToken := None, yc_refreshToken := None,
       yc_tokenExpiresAt := None\<rparr>"

text \<open>The interaction tables take a new row and refuse every deletion.\<close>

definition ex_delete_fails :: "db_call \<Rightarrow> string option" where
  "ex_delete_fails c =
     (case c of
        RedditInteractionDeleteMany ids \<Rightarrow> Some ''connection lost''
      | YouTubeInteractionDeleteMany a t \<Rightarrow> Some ''connection lost''
      | _ \<Rightarrow> None)"

text \<open>
  Outside worlds with nothing to reply to: the search finds an own post and a post of 3
  upvotes and the channel has no video; the only comment has 2 likes. A table in which
  the comment \<open>c1\<close> already has a reply.
\<close>

definition ex_quiet :: external where
  "ex_quiet =
     ex_external\<lparr>
       reddit_search := (\<lambda>c. Resolves (Ok [ex_post ''p1'' ''me'' 20, ex_post ''p2'' ''bob'' 3])),
       youtube_playlistItems := (\<lambda>c. Resolves (Ok []))\<rparr>"

definition ex_unliked :: external where
  "ex_unliked =
     ex_external\<lparr>youtube_commentThreads :=
       (\<lambda>c. Resolves (Ok [ex_thread\<lparr>t_likeCount := Some 2\<rparr>]))\<rparr>"

definition ex_replied_world :: world where
  "ex_replied_world =
     ex_world\<lparr>youtubeInteractions := [ex_stale_row\<lparr>yi_commentId := ''c1''\<rparr>]\<rparr>"

section \<open>The stable sort\<close>

lemma js_sort_Nil: "js_sort cmp [] = []"
  by (simp add: js_sort_def)

lemma js_sort_Cons: "js_sort cmp (x # xs) = insert_by cmp x (js_sort cmp xs)"
  by (simp add: js_sort_def)

lemma length_insert_by: "length (insert_by cmp x ys) = Suc (length ys)"
  by (induction ys) auto

lemma length_js_sort: "length (js_sort cmp xs) = length xs"
  by (induction xs) (auto simp: js_sort_Cons js_sort_Nil length_insert_by)

lemma set_insert_by: "set (insert_by cmp x ys) = insert x (set ys)"
  by (induction ys) auto

lemma set_js_sort: "set (js_sort cmp xs) = set xs"
  by (induction xs) (auto simp: js_sort_Cons js_sort_Nil set_insert_by)

lemma sorted_insert_by:
  "sorted_wrt (\<lambda>a b. key a \<ge> key b) ys \<Longrightarrow>
   sorted_wrt (\<lambda>a b. key a \<ge> key b) (insert_by (\<lambda>a b. key b - key a) x ys)"
  by (induction ys) (auto simp: set_insert_by)

lemma sorted_js_sort:
  "sorted_wrt (\<lambda>a b. key a \<ge> key b) (js_sort (\<lambda>a b. key b - key a) xs)"
  by (induction xs) (auto simp: js_sort_Cons js_sort_Nil sorted_insert_by)

text \<open>
  The head of the sorted list is an element of greatest key, and the earliest such
  element of the input: every element before it has a strictly smaller key.
\<close>

lemma js_sort_first:
  "xs \<noteq> [] \<Longrightarrow>
   \<exists>i < length xs. js_sort (\<lambda>a b. key b - key a) xs ! 0 = xs ! i \<and>
     (\<forall>j < length xs. key (xs ! j) \<le> key (xs ! i)) \<and>
     (\<forall>j < i. key (xs ! j) < key (xs ! i))"
proof (induction xs)
  case Nil
  then show ?case by simp
next
  case (Cons x xs)
  show ?case
  proof (cases "xs = []")
    case True
    then show ?thesis by (simp add: js_sort_Cons js_sort_Nil)
  next
    case False
    with Cons.IH obtain i where i: "i < length xs"
      and hd: "js_sort (\<lambda>a b. key b - key a) xs ! 0 = xs ! i"
      and mx: "\<forall>j < length xs. key (xs ! j) \<le> key (xs ! i)"
      and fst: "\<forall>j < i. key (xs ! j) < key (xs ! i)"
      by blast
    from False have ne: "js_sort (\<lambda>a b. key b - key a) xs \<noteq> []"
      using length_js_sort [of "\<lambda>a b. key b - key a" xs] by auto
    then obtain y ys where ys: "js_sort (\<lambda>a b. key b - key a) xs = y # ys"
      by (cases "js_sort (\<lambda>a b. key b - key a) xs") auto
    with hd have y: "y = xs ! i" by simp
    show ?thesis
    proof (cases "key x < key y")
      case True
      then have "js_sort (\<lambda>a b. key b - key a) (x # xs) ! 0 = (x # xs) ! Suc i"
        by (simp add: js_sort_Cons ys y)
      moreover have "\<forall>j < length (x # xs). key ((x # xs) ! j) \<le> key ((x # xs) ! Suc i)"
        using mx True y by (auto simp: nth_Cons')
      moreover have "\<forall>j < Suc i. key ((x # xs) ! j) < key ((x # xs) ! Suc i)"
        using fst True y by (auto simp: nth_Cons')
      ultimately show ?thesis using i by (intro exI [of _ "Suc i"]) simp
    next
      case False
      then have "js_sort (\<lambda>a b. key b - key a) (x # xs) ! 0 = (x # xs) ! 0"
        by (simp add: js_sort_Cons ys y)
      moreover have "\<forall>j < length (x # xs). key ((x # xs) ! j) \<le> key ((x # xs) ! 0)"
      proof (intro allI impI)
        fix j assume "j < length (x # xs)"
        then show "key ((x # xs) ! j) \<le> key ((x # xs) ! 0)"
          using mx False y by (cases j) (auto intro: order_trans)
      qed
      ultimately show ?thesis by (intro exI [of _ 0]) simp
    qed
  qed
qed

lemma length_filter_insert_by:
  "length (filter P (insert_by cmp x ys)) = length (filter P (x # ys))"
  by (induction ys) auto

lemma length_filter_js_sort: "length (filter P (js_sort cmp xs)) = length (filter P xs)"
  by (induction xs) (auto simp: js_sort_Cons js_sort_Nil length_filter_insert_by)

lemma distinct_insert_by: "distinct (insert_by cmp x ys) = (x \<notin> set ys \<and> distinct ys)"
  by (induction ys) (auto simp: set_insert_by)

lemma distinct_js_sort: "distinct (js_sort cmp xs) = distinct xs"
  by (induction xs) (auto simp: js_sort_Cons js_sort_Nil distinct_insert_by set_js_sort)

section \<open>Evaluation on the example inputs\<close>

lemmas ex_defs = ex_post_def ex_reddit_credentials_def ex_reddit_config_def ex_openrouter_def
  ex_youtube_credentials_def ex_account_def ex_thread_def ex_external_def ex_world_def
  ex_request_def ex_anonymous_request_def ex_upsert_fails_def

lemmas ex_creds_defs = ex_account_with_def ex_world_with_def ex_reddit_no_refresh_def
  ex_reddit_no_refresh_expired_def ex_youtube_no_refresh_def ex_reddit_expired_def
  ex_youtube_expired_def ex_reddit_disconnected_def ex_youtube_disconnected_def

lemmas io_defs = ret_def throw_def respond_def bind_def try_catch_def db_def fetch_def
  required_def createLog_def json_def

lemmas js_defs = truthy_def or_else_def num_or_else_def trim_def is_space_def js_sort_def
  dq_def nl_def expires_after_def

lemmas reddit_defs = reddit_POST_def reddit_handler_def reddit_find_account_def isCronCall_def
  reddit_validate_def reddit_pipeline_def reddit_token_stage_def reddit_search_stage_def
  reddit_select_stage_def reddit_generate_stage_def reddit_publish_stage_def
  reddit_record_stage_def reddit_store_def reddit_refreshTokenIfNeeded_def searchPosts_def
  postComment_def reddit_generateReplyWithLLM_def llm_reply_def eligiblePosts_def
  targetPost_def sortedPosts_def reddit_upsert_def oldInteractions_def
  reddit_deleteMany_def styleInstructions_def fresh_id_def

lemmas youtube_defs = youtube_POST_def youtube_handler_def youtube_validate_def
  youtube_pipeline_def youtube_token_stage_def youtube_videos_stage_def
  youtube_comments_stage_def youtube_select_stage_def youtube_generate_stage_def
  youtube_publish_stage_def youtube_store_def youtube_refreshTokenIfNeeded_def
  fetchChannelVideos_def fetchVideoComments_def comment_of_thread_def postCommentReply_def
  youtube_generateReplyWithLLM_def llm_reply_def minimumLikesCount_def filteredComments_def
  unrepliedComments_def bestComment_def youtube_upsert_def youtube_deleteMany_def
  styleInstructions_def fresh_id_def

lemma ex_admitted:
  "reddit_admitted ex_external ex_request (ex_world_with rc yc) ''a1'' (ex_account_with rc yc)"
  "youtube_admitted ex_external ex_request (ex_world_with rc yc) ''a1'' (ex_account_with rc yc)"
  by (simp_all add: reddit_admitted_def youtube_admitted_def reddit_find_account_def
      isCronCall_def truthy_def db_def ex_external_def ex_request_def ex_world_with_def
      ex_account_with_def ex_account_def ex_world_def)

lemma ex_log_ok: "log_ok ex_external a"
  by (simp add: log_ok_def ex_external_def)

lemmas ex_more_defs = ex_quiet_def ex_unliked_def ex_replied_world_def ex_stale_row_def
  ex_full_world_def ex_delete_fails_def started_def

lemma ex_plain_admitted:
  "reddit_admitted ex_external ex_request ex_world ''a1'' ex_account"
  "youtube_admitted ex_external ex_request ex_world ''a1'' ex_account"
  "youtube_admitted ex_external ex_request ex_replied_world ''a1'' ex_account"
  "reddit_admitted ex_quiet ex_request ex_world ''a1'' ex_account"
  "youtube_admitted ex_quiet ex_request ex_world ''a1'' ex_account"
  "youtube_admitted ex_unliked ex_request ex_world ''a1'' ex_account"
  "reddit_admitted (ex_external\<lparr>db_throws := ex_delete_fails\<rparr>) ex_request ex_full_world
     ''a1'' ex_account"
  by (simp_all add: reddit_admitted_def youtube_admitted_def reddit_find_account_def
      isCronCall_def truthy_def db_def ex_external_def ex_request_def ex_account_def
      ex_world_def ex_more_defs)

lemma ex_plain_log_ok:
  "log_ok ex_quiet a" "log_ok ex_unliked a"
  "log_ok (ex_external\<lparr>db_throws := ex_delete_fails\<rparr>) a"
  by (simp_all add: log_ok_def ex_external_def ex_more_defs)

lemma ex_plain_validated:
  "reddit_validated ex_account ex_reddit_credentials ''tok'' ex_reddit_config ex_openrouter
     ''key'' ''model''"
  "youtube_validated ex_account ex_youtube_credentials ''ytok'' ex_openrouter ''key'' ''model''"
  by (simp_all add: reddit_validated_def youtube_validated_def ex_defs js_defs)

lemma ex_row_not_post:
  "replicate n CHR ''x'' \<noteq> CHR ''p'' # s" "CHR ''p'' # s \<noteq> replicate n CHR ''x''"
  by (cases n, simp_all)+

section \<open>Selection\<close>

text \<open>
  C8. Selection sorts the eligible candidates by descending engagement and takes the
  element at index 0, which is a candidate of greatest engagement and, among those, the
  earliest in fetch order: every candidate before it has strictly less engagement.
\<close>

theorem selection_takes_first_maximum:
  "(eligible \<noteq> [] \<longrightarrow>
      sorted_wrt (\<lambda>a b. post_ups a \<ge> post_ups b) (sortedPosts eligible) \<and>
      targetPost eligible = Some (sortedPosts eligible ! 0) \<and>
      (\<exists>i < length eligible. targetPost eligible = Some (eligible ! i) \<and>
         (\<forall>j < length eligible. post_ups (eligible ! j) \<le> post_ups (eligible ! i)) \<and>
         (\<forall>j < i. post_ups (eligible ! j) < post_ups (eligible ! i)))) \<and>
   (unreplied \<noteq> [] \<longrightarrow>
      sorted_wrt (\<lambda>a b. cm_likeCount a \<ge> cm_likeCount b)
        (js_sort (\<lambda>a b. cm_likeCount b - cm_likeCount a) unreplied) \<and>
      bestComment unreplied = Some (js_sort (\<lambda>a b. cm_likeCount b - cm_likeCount a) unreplied ! 0) \<and>
      (\<exists>i < length unreplied. bestComment unreplied = Some (unreplied ! i) \<and>
         (\<forall>j < length unreplied. cm_likeCount (unreplied ! j) \<le> cm_likeCount (unreplied ! i)) \<and>
         (\<forall>j < i. cm_likeCount (unreplied ! j) < cm_likeCount (unreplied ! i))))"
proof (intro conjI impI)
  assume ne: "eligible \<noteq> []"
  then have "sortedPosts eligible \<noteq> []"
    using length_js_sort [of "\<lambda>a b. post_ups b - post_ups a" eligible]
    by (auto simp: sortedPosts_def)
  then show top: "targetPost eligible = Some (sortedPosts eligible ! 0)"
    by (cases "sortedPosts eligible") (simp_all add: targetPost_def)
  show "sorted_wrt (\<lambda>a b. post_ups a \<ge> post_ups b) (sortedPosts eligible)"
    unfolding sortedPosts_def by (rule sorted_js_sort)
  from js_sort_first [OF ne, of post_ups] top
  show "\<exists>i < length eligible. targetPost eligible = Some (eligible ! i) \<and>
         (\<forall>j < length eligible. post_ups (eligible ! j) \<le> post_ups (eligible ! i)) \<and>
         (\<forall>j < i. post_ups (eligible ! j) < post_ups (eligible ! i))"
    by (simp add: sortedPosts_def)
next
  let ?S = "js_sort (\<lambda>a b. cm_likeCount b - cm_likeCount a) unreplied"
  assume ne: "unreplied \<noteq> []"
  then have "?S \<noteq> []"
    using length_js_sort [of "\<lambda>a b. cm_likeCount b - cm_likeCount a" unreplied] by auto
  then show top: "bestComment unreplied = Some (?S ! 0)"
    by (cases ?S) (simp_all add: bestComment_def)
  show "sorted_wrt (\<lambda>a b. cm_likeCount a \<ge> cm_likeCount b) ?S"
    by (rule sorted_js_sort)
  from js_sort_first [OF ne, of cm_likeCount] top
  show "\<exists>i < length unreplied. bestComment unreplied = Some (unreplied ! i) \<and>
         (\<forall>j < length unreplied. cm_likeCount (unreplied ! j) \<le> cm_likeCount (unreplied ! i)) \<and>
         (\<forall>j < i. cm_likeCount (unreplied ! j) < cm_likeCount (unreplied ! i))"
    by simp
qed

theorem selection_takes_first_maximum_witness:
  "[ex_post ''x'' ''ann'' 20, ex_post ''y'' ''bob'' 20] \<noteq> [] \<and>
   targetPost [ex_post ''x'' ''ann'' 20, ex_post ''y'' ''bob'' 20] = Some (ex_post ''x'' ''ann'' 20) \<and>
   targetPost [ex_post ''a'' ''ann'' 3, ex_post ''b'' ''bob'' 20] = Some (ex_post ''b'' ''bob'' 20) \<and>
   targetPost [ex_post ''x'' ''ann'' 20, ex_post ''y'' ''bob'' 20]
     = Some (sortedPosts [ex_post ''x'' ''ann'' 20, ex_post ''y'' ''bob'' 20] ! 0) \<and>
   bestComment [comment_of_thread ''v1'' ''Video'' ex_thread]
     = Some (js_sort (\<lambda>a b. cm_likeCount b - cm_likeCount a)
          [comment_of_thread ''v1'' ''Video'' ex_thread] ! 0)"
  using selection_takes_first_maximum [of "[ex_post ''x'' ''ann'' 20, ex_post ''y'' ''bob'' 20]"
      "[comment_of_thread ''v1'' ''Video'' ex_thread]"]
  by (simp add: targetPost_def sortedPosts_def js_sort_def ex_post_def)

section \<open>Reasoning about handlers\<close>

lemma ensures_ret: "refl_trans R \<Longrightarrow> Q a \<Longrightarrow> ensures R P Q (ret a)"
  by (simp add: ensures_def holds_def ret_def refl_trans_def)

lemma ensures_throw: "refl_trans R \<Longrightarrow> ensures R P Q (throw e)"
  by (simp add: ensures_def holds_def throw_def refl_trans_def)

lemma ensures_respond: "refl_trans R \<Longrightarrow> P r \<Longrightarrow> ensures R P Q (respond r)"
  by (simp add: ensures_def holds_def respond_def refl_trans_def)

lemma ensures_bind:
  assumes R: "refl_trans R" and m: "ensures R P Q1 m"
    and f: "\<And>a. Q1 a \<Longrightarrow> ensures R P Q2 (f a)"
  shows "ensures R P Q2 (bind m f)"
  unfolding ensures_def
proof
  fix w
  obtain out w1 where mw: "m w = (out, w1)" by (cases "m w")
  from m mw have 1: "R w w1" and 2: "holds P Q1 out"
    by (auto simp: ensures_def dest: spec [of _ w])
  show "R w (snd (bind m f w)) \<and> holds P Q2 (fst (bind m f w))"
  proof (cases out)
    case (Value a)
    with 2 have "Q1 a" by (simp add: holds_def)
    from f [OF this] have "R w1 (snd (f a w1))" and 3: "holds P Q2 (fst (f a w1))"
      by (simp_all add: ensures_def)
    with 1 R have "R w (snd (f a w1))" unfolding refl_trans_def by blast
    with 3 show ?thesis by (simp add: bind_def mw Value)
  next
    case (Throw e)
    with 1 show ?thesis by (simp add: bind_def mw holds_def)
  next
    case (Return r)
    with 1 2 show ?thesis by (simp add: bind_def mw holds_def)
  qed
qed

lemma ensures_try_catch:
  assumes R: "refl_trans R" and m: "ensures R P Q m" and h: "\<And>e. ensures R P Q (h e)"
  shows "ensures R P Q (try_catch m h)"
  unfolding ensures_def
proof
  fix w
  obtain out w1 where mw: "m w = (out, w1)" by (cases "m w")
  from m mw have 1: "R w w1" and 2: "holds P Q out"
    by (auto simp: ensures_def dest: spec [of _ w])
  show "R w (snd (try_catch m h w)) \<and> holds P Q (fst (try_catch m h w))"
  proof (cases out)
    case (Throw e)
    from h [of e] have "R w1 (snd (h e w1))" and 3: "holds P Q (fst (h e w1))"
      by (simp_all add: ensures_def)
    with 1 R have "R w (snd (h e w1))" unfolding refl_trans_def by blast
    with 3 show ?thesis by (simp add: try_catch_def mw Throw)
  next
    case (Value a)
    with 1 2 show ?thesis by (simp add: try_catch_def mw)
  next
    case (Return r)
    with 1 2 show ?thesis by (simp add: try_catch_def mw)
  qed
qed

lemma ensures_db:
  assumes R: "refl_trans R" and act: "\<And>w. R w (snd (act w)) \<and> Q (fst (act w))"
  shows "ensures R P Q (db ext call act)"
  unfolding ensures_def
proof
  fix w
  show "R w (snd (db ext call act w)) \<and> holds P Q (fst (db ext call act w))"
  proof (cases "db_throws ext call")
    case None
    with act [of w] show ?thesis
      by (cases "act w") (simp add: db_def holds_def)
  next
    case (Some msg)
    with R show ?thesis by (simp add: db_def holds_def refl_trans_def)
  qed
qed

lemma ensures_createLog:
  assumes R: "refl_trans R"
    and log: "\<And>w l. R w (w\<lparr>logs := l\<rparr>)"
  shows "ensures R P (\<lambda>_. True) (createLog ext a lvl msg)"
  unfolding createLog_def by (rule ensures_db [OF R]) (simp add: log)

lemma ensures_required:
  "ensures R P Q missing \<Longrightarrow> (\<And>x. x \<noteq> [] \<Longrightarrow> ensures R P Q (k x)) \<Longrightarrow>
   ensures R P Q (required v missing k)"
  by (simp add: required_def split: option.splits)

lemma ensures_fetch:
  assumes "\<And>w. R w (w\<lparr>net := net w @ [call]\<rparr>)"
  shows "ensures R P (\<lambda>_. True) (fetch call answer)"
  using assms by (simp add: ensures_def holds_def fetch_def split: http.splits)

lemma ensures_weaken:
  "ensures R P Q m \<Longrightarrow> (\<And>a. Q a \<Longrightarrow> Q' a) \<Longrightarrow> ensures R P Q' m"
  unfolding ensures_def holds_def
  by (auto split: outcome.splits)

section \<open>An invariant of both handlers\<close>

lemma grows_refl: "grows w w"
  by (simp add: grows_def list_all_iff)

lemma grows_trans: "grows a b \<Longrightarrow> grows b c \<Longrightarrow> grows a c"
  unfolding grows_def list_all_iff by (elim conjE exE) (auto simp: list_all_iff)

lemma refl_trans_grows: "refl_trans grows"
  unfolding refl_trans_def using grows_refl grows_trans by blast

lemma grows_logs: "grows w (w\<lparr>logs := l\<rparr>)"
  by (simp add: grows_def list_all_iff)

lemma grows_accounts: "grows w (w\<lparr>accounts := l\<rparr>)"
  by (simp add: grows_def list_all_iff)

lemma grows_net: "short_call c \<Longrightarrow> grows w (w\<lparr>net := net w @ [c]\<rparr>)"
  by (simp add: grows_def list_all_iff)

lemmas grows_rules = refl_trans_grows grows_logs

lemma grows_reddit_rows:
  "list_all (\<lambda>i. i \<in> set (redditInteractions w) \<or> length (ri_ourComment i) \<le> 500) rows \<Longrightarrow>
   grows w (w\<lparr>redditInteractions := rows\<rparr>)"
  by (simp add: grows_def list_all_iff)

lemma grows_youtube_rows:
  "list_all (\<lambda>i. i \<in> set (youtubeInteractions w) \<or> short_reply (yi_ourReply i)) rows \<Longrightarrow>
   grows w (w\<lparr>youtubeInteractions := rows\<rparr>)"
  by (simp add: grows_def list_all_iff)

lemma grows_new_calls: "grows w w' \<Longrightarrow> list_all short_call (new_calls w w')"
  by (auto simp: grows_def new_calls_def)

lemma createLog_sound: "ensures grows sound_response (\<lambda>_. True) (createLog ext a lvl msg)"
  by (rule ensures_createLog) (rule grows_rules)+

lemma log_then_respond:
  "sound_response r \<Longrightarrow>
   ensures grows sound_response Q (bind (createLog ext a lvl msg) (\<lambda>_. respond r))"
  by (rule ensures_bind [OF refl_trans_grows createLog_sound])
    (rule ensures_respond [OF refl_trans_grows])

lemma sound_error [simp]:
  "sound_response (json (BError msg) 400)" "sound_response (json (BError msg) 401)"
  "sound_response (json (BError msg) 404)" "sound_response (json (BError msg) 500)"
  by (simp_all add: sound_response_def status_class_def completed_def short_body_def json_def)

lemma sound_not_replied [simp]:
  "sound_response (json (BNotReplied msg) 200)" "sound_response (json (BSuccessNotReplied msg) 200)"
  by (simp_all add: sound_response_def status_class_def completed_def short_body_def json_def)

lemma sound_replied [simp]:
  "length c \<le> 500 \<Longrightarrow> sound_response (json (BReplied a t c) 200)"
  "length c \<le> 500 \<Longrightarrow> sound_response (json (BSuccessReplied a i t r c) 200)"
  by (simp_all add: sound_response_def status_class_def completed_def short_body_def json_def)

lemmas sound_intros = ensures_ret ensures_required ensures_throw ensures_respond
  ensures_bind [where ?Q1.0 = "\<lambda>_. True"] ensures_try_catch ensures_fetch ensures_db
  createLog_sound log_then_respond grows_net grows_rules

subsection \<open>The Reddit handler\<close>

lemma reddit_refresh_sound:
  "ensures grows sound_response (\<lambda>_. True)
     (reddit_refreshTokenIfNeeded ext a cid sec tok rt ex)"
  unfolding reddit_refreshTokenIfNeeded_def Let_def
  by (auto intro!: ensures_ret ensures_required ensures_throw ensures_bind [where ?Q1.0 = "\<lambda>_. True"]
      ensures_fetch ensures_db grows_net grows_rules
      simp: short_call_def update_reddit_credentials_def grows_accounts split: reply.splits)

lemma reddit_token_stage_sound:
  "ensures grows sound_response (\<lambda>_. True) (reddit_token_stage ext a creds tok)"
  unfolding reddit_token_stage_def
  by (intro ensures_try_catch reddit_refresh_sound log_then_respond refl_trans_grows) simp

lemma searchPosts_sound:
  "ensures grows sound_response (\<lambda>_. True) (searchPosts ext tok kw tr)"
  unfolding searchPosts_def Let_def
  by (auto intro!: sound_intros simp: short_call_def split: reply.splits)

lemma reddit_search_stage_sound:
  "ensures grows sound_response (\<lambda>_. True) (reddit_search_stage ext a tok kw tr)"
  unfolding reddit_search_stage_def
  by (auto intro!: sound_intros searchPosts_sound)

lemma reddit_select_stage_sound:
  "ensures grows sound_response (\<lambda>_. True) (reddit_select_stage ext a creds cfg posts)"
  unfolding reddit_select_stage_def Let_def
  by (auto intro!: sound_intros simp: grows_refl split: option.splits)

lemma llm_reply_sound:
  "ensures grows sound_response (\<lambda>r. length r \<le> 500) (llm_reply response)"
  unfolding llm_reply_def
  by (auto intro!: sound_intros split: reply.splits)

lemma reddit_generate_sound:
  "ensures grows sound_response (\<lambda>r. length r \<le> 500)
     (reddit_generateReplyWithLLM ext k m sp t b au sub so)"
  unfolding reddit_generateReplyWithLLM_def Let_def
  by (rule ensures_bind [where ?Q1.0 = "\<lambda>_. True"])
    (auto intro!: sound_intros llm_reply_sound simp: short_call_def)

lemma reddit_generate_stage_sound:
  "ensures grows sound_response (\<lambda>r. length r \<le> 500)
     (reddit_generate_stage ext a oc k m tp)"
  unfolding reddit_generate_stage_def
  by (intro ensures_try_catch ensures_bind [where ?Q1.0 = "\<lambda>r. length r \<le> 500"]
      reddit_generate_sound refl_trans_grows log_then_respond
      ensures_bind [OF refl_trans_grows createLog_sound] ensures_ret) simp_all

lemma postComment_sound:
  "length text \<le> 500 \<Longrightarrow> ensures grows sound_response (\<lambda>_. True) (postComment ext tok name text)"
  unfolding postComment_def Let_def
  by (auto intro!: sound_intros simp: short_call_def split: reply.splits)

lemma reddit_publish_stage_sound:
  "length text \<le> 500 \<Longrightarrow>
   ensures grows sound_response (\<lambda>_. True) (reddit_publish_stage ext a tok tp text)"
  unfolding reddit_publish_stage_def
  by (auto intro!: sound_intros postComment_sound)

lemma reddit_upsert_short:
  "length text \<le> 500 \<Longrightarrow>
   list_all (\<lambda>i. i \<in> set rows \<or> length (ri_ourComment i) \<le> 500)
     (reddit_upsert ext a tp text cid rows)"
  by (auto simp: reddit_upsert_def list_all_iff)

lemma reddit_store_sound:
  "length text \<le> 500 \<Longrightarrow>
   ensures grows sound_response (\<lambda>_. True) (reddit_store ext a tp text cid)"
  unfolding reddit_store_def
  by (auto intro!: sound_intros grows_reddit_rows reddit_upsert_short
      simp: grows_refl reddit_deleteMany_def list_all_iff)

lemma reddit_record_stage_sound:
  "length text \<le> 500 \<Longrightarrow>
   ensures grows sound_response (\<lambda>_. True) (reddit_record_stage ext a tp text cid)"
  unfolding reddit_record_stage_def
  by (auto intro!: sound_intros reddit_store_sound)

lemma reddit_pipeline_sound:
  "ensures grows sound_response sound_response
     (reddit_pipeline ext a creds tok cfg oc k m)"
  unfolding reddit_pipeline_def
  apply (rule ensures_bind [OF refl_trans_grows createLog_sound])
  apply (rule ensures_bind [OF refl_trans_grows reddit_token_stage_sound])
  apply (rule ensures_bind [OF refl_trans_grows reddit_search_stage_sound])
  apply (rule ensures_bind [OF refl_trans_grows reddit_select_stage_sound])
  apply (rule ensures_bind [OF refl_trans_grows reddit_generate_stage_sound])
  apply (rule ensures_bind [OF refl_trans_grows reddit_publish_stage_sound], assumption)
  apply (rule ensures_bind [OF refl_trans_grows reddit_record_stage_sound], assumption)
  apply (rule ensures_ret [OF refl_trans_grows])
  apply simp
  done

lemma reddit_validate_sound:
  "ensures grows sound_response sound_response (reddit_validate ext a account)"
  unfolding reddit_validate_def Let_def
  by (auto intro!: ensures_required log_then_respond reddit_pipeline_sound split: option.splits)

lemma reddit_find_account_sound:
  "ensures grows sound_response (\<lambda>_. True) (reddit_find_account ext req a)"
  unfolding reddit_find_account_def Let_def
  by (auto intro!: sound_intros simp: grows_refl)

lemma reddit_handler_sound:
  "ensures grows sound_response sound_response (reddit_handler ext req)"
  unfolding reddit_handler_def
  by (auto intro!: ensures_required ensures_throw ensures_respond refl_trans_grows
      ensures_bind [OF refl_trans_grows reddit_find_account_sound] reddit_validate_sound
      split: option.splits)

lemma reddit_POST_sound:
  "grows w (snd (reddit_POST ext req w)) \<and> sound_response (fst (reddit_POST ext req w))"
proof -
  from reddit_handler_sound [of ext req]
  have 1: "grows w (snd (reddit_handler ext req w))"
    and 2: "holds sound_response sound_response (fst (reddit_handler ext req w))"
    by (simp_all add: ensures_def)
  obtain out w' where h: "reddit_handler ext req w = (out, w')"
    by (cases "reddit_handler ext req w")
  with 1 2 show ?thesis
    by (cases out) (simp_all add: reddit_POST_def holds_def)
qed

subsection \<open>The YouTube handler\<close>

lemma youtube_refresh_sound:
  "ensures grows sound_response (\<lambda>_. True)
     (youtube_refreshTokenIfNeeded ext cid sec tok rt ex)"
  unfolding youtube_refreshTokenIfNeeded_def Let_def
  by (auto intro!: sound_intros simp: short_call_def split: reply.splits option.splits)

lemma youtube_token_stage_sound:
  "ensures grows sound_response (\<lambda>_. True) (youtube_token_stage ext a creds)"
  unfolding youtube_token_stage_def
  by (auto intro!: sound_intros youtube_refresh_sound
      simp: update_youtube_credentials_def grows_accounts split: option.splits)

lemma fetchChannelVideos_sound:
  "ensures grows sound_response (\<lambda>_. True) (fetchChannelVideos ext tok n)"
  unfolding fetchChannelVideos_def Let_def
  by (auto intro!: sound_intros simp: short_call_def split: reply.splits)

lemma youtube_videos_stage_sound:
  "ensures grows sound_response (\<lambda>_. True) (youtube_videos_stage ext a tok)"
  unfolding youtube_videos_stage_def
  by (auto intro!: sound_intros fetchChannelVideos_sound)

lemma fetchVideoComments_sound:
  "ensures grows sound_response (\<lambda>_. True) (fetchVideoComments ext tok vid vt)"
  unfolding fetchVideoComments_def Let_def
  by (auto intro!: sound_intros simp: short_call_def split: reply.splits)

lemma allComments_loop_sound:
  "ensures grows sound_response (\<lambda>_. True) (allComments_loop ext tok n videos acc)"
  by (induction videos arbitrary: acc) (auto intro!: sound_intros fetchVideoComments_sound)

lemma youtube_comments_stage_sound:
  "ensures grows sound_response (\<lambda>_. True) (youtube_comments_stage ext a account tok videos)"
  unfolding youtube_comments_stage_def Let_def
  by (auto intro!: sound_intros allComments_loop_sound)

lemma youtube_select_stage_sound:
  "ensures grows sound_response (\<lambda>_. True) (youtube_select_stage ext a comments)"
  unfolding youtube_select_stage_def Let_def
  by (auto intro!: sound_intros simp: grows_refl split: option.splits)

lemma youtube_generate_sound:
  "ensures grows sound_response (\<lambda>r. length r \<le> 500)
     (youtube_generateReplyWithLLM ext k m sp c au vt so)"
  unfolding youtube_generateReplyWithLLM_def Let_def
  by (rule ensures_bind [where ?Q1.0 = "\<lambda>_. True"])
    (auto intro!: sound_intros llm_reply_sound simp: short_call_def)

lemma youtube_generate_stage_sound:
  "ensures grows sound_response (\<lambda>r. length r \<le> 500)
     (youtube_generate_stage ext a oc k m best)"
  unfolding youtube_generate_stage_def
  by (intro ensures_try_catch ensures_bind [where ?Q1.0 = "\<lambda>r. length r \<le> 500"]
      youtube_generate_sound refl_trans_grows log_then_respond
      ensures_bind [OF refl_trans_grows createLog_sound] ensures_ret) simp_all

lemma postCommentReply_sound:
  "length text \<le> 500 \<Longrightarrow>
   ensures grows sound_response (\<lambda>_. True) (postCommentReply ext tok parent text)"
  unfolding postCommentReply_def Let_def
  by (auto intro!: sound_intros simp: short_call_def split: reply.splits)

lemma youtube_publish_stage_sound:
  "length text \<le> 500 \<Longrightarrow>
   ensures grows sound_response (\<lambda>_. True) (youtube_publish_stage ext a tok best text)"
  unfolding youtube_publish_stage_def
  by (auto intro!: sound_intros postCommentReply_sound)

lemma youtube_upsert_short:
  "length text \<le> 500 \<Longrightarrow>
   list_all (\<lambda>i. i \<in> set rows \<or> short_reply (yi_ourReply i))
     (youtube_upsert ext a c text rid rows)"
  by (auto simp: youtube_upsert_def list_all_iff short_reply_def)

lemma youtube_store_sound:
  "length text \<le> 500 \<Longrightarrow>
   ensures grows sound_response (\<lambda>_. True) (youtube_store ext a c text rid)"
  unfolding youtube_store_def Let_def
  by (auto intro!: sound_intros grows_youtube_rows youtube_upsert_short
      simp: youtube_deleteMany_def list_all_iff)

lemma youtube_pipeline_sound:
  "ensures grows sound_response sound_response
     (youtube_pipeline ext a account creds oc k m)"
  unfolding youtube_pipeline_def
  apply (rule ensures_bind [OF refl_trans_grows createLog_sound])
  apply (rule ensures_bind [OF refl_trans_grows youtube_token_stage_sound])
  apply (rule ensures_bind [OF refl_trans_grows youtube_videos_stage_sound])
  apply (rule ensures_bind [OF refl_trans_grows youtube_comments_stage_sound])
  apply (rule ensures_bind [OF refl_trans_grows youtube_select_stage_sound])
  apply (rule ensures_bind [OF refl_trans_grows youtube_generate_stage_sound])
  apply (rule ensures_bind [OF refl_trans_grows youtube_publish_stage_sound], assumption)
  apply (rule ensures_bind [OF refl_trans_grows youtube_store_sound], assumption)
  apply (rule ensures_ret [OF refl_trans_grows])
  apply simp
  done

lemma youtube_validate_sound:
  "ensures grows sound_response sound_response (youtube_validate ext a account)"
  unfolding youtube_validate_def Let_def
  by (auto intro!: ensures_required log_then_respond youtube_pipeline_sound split: option.splits)

lemma youtube_handler_sound:
  "ensures grows sound_response sound_response (youtube_handler ext req)"
  unfolding youtube_handler_def
  by (auto intro!: ensures_required ensures_throw ensures_respond refl_trans_grows
      ensures_bind [where ?Q1.0 = "\<lambda>_. True"] ensures_db youtube_validate_sound
      simp: grows_refl split: option.splits)

lemma youtube_POST_sound:
  "grows w (snd (youtube_POST ext req w)) \<and> sound_response (fst (youtube_POST ext req w))"
proof -
  from youtube_handler_sound [of ext req]
  have 1: "grows w (snd (youtube_handler ext req w))"
    and 2: "holds sound_response sound_response (fst (youtube_handler ext req w))"
    by (simp_all add: ensures_def)
  obtain out w' where h: "youtube_handler ext req w = (out, w')"
    by (cases "youtube_handler ext req w")
  with 1 2 show ?thesis
    by (cases out) (simp_all add: youtube_POST_def holds_def)
qed

section \<open>Truncation\<close>

text \<open>
  C7. Whatever the language model returns, a reply the generator accepts has at most 500 code
  units: every comment a run publishes (Reddit comment, YouTube comment insert), every
  interaction row it writes or changes, and the reply in its response are that short.
\<close>

theorem reply_at_most_500:
  "list_all short_call (new_calls w (snd (reddit_POST ext req w))) \<and>
   list_all (\<lambda>i. i \<in> set (redditInteractions w) \<or> length (ri_ourComment i) \<le> 500)
     (redditInteractions (snd (reddit_POST ext req w))) \<and>
   short_body (body (fst (reddit_POST ext req w))) \<and>
   list_all short_call (new_calls w (snd (youtube_POST ext req w))) \<and>
   list_all (\<lambda>i. i \<in> set (youtubeInteractions w) \<or> short_reply (yi_ourReply i))
     (youtubeInteractions (snd (youtube_POST ext req w))) \<and>
   short_body (body (fst (youtube_POST ext req w)))"
  using reddit_POST_sound [of w ext req] youtube_POST_sound [of w ext req]
  by (simp add: grows_new_calls sound_response_def) (simp add: grows_def)

lemma ex_long_reddit:
  "new_calls ex_world (snd (reddit_POST (ex_external\<lparr>openrouter := ex_long_answer\<rparr>) ex_request ex_world)) ! 2 =
   NetRedditComment ''tok'' ''t3_p1'' (replicate 500 CHR ''a'')"
  by (simp add: ex_defs io_defs reddit_defs js_defs Let_def new_calls_def ex_long_answer_def)

lemma ex_long_youtube:
  "new_calls ex_world (snd (youtube_POST (ex_external\<lparr>openrouter := ex_long_answer\<rparr>) ex_request ex_world)) ! 4 =
   NetYouTubeCommentInsert ''ytok'' ''c1'' (replicate 500 CHR ''a'')"
  by (simp add: ex_defs io_defs youtube_defs js_defs Let_def new_calls_def ex_long_answer_def)

theorem reply_at_most_500_witness:
  "new_calls ex_world
     (snd (reddit_POST (ex_external\<lparr>openrouter := ex_long_answer\<rparr>) ex_request ex_world)) ! 2 =
     NetRedditComment ''tok'' ''t3_p1'' (replicate 500 CHR ''a'') \<and>
   list_all short_call (new_calls ex_world
     (snd (reddit_POST (ex_external\<lparr>openrouter := ex_long_answer\<rparr>) ex_request ex_world))) \<and>
   new_calls ex_world
     (snd (youtube_POST (ex_external\<lparr>openrouter := ex_long_answer\<rparr>) ex_request ex_world)) ! 4 =
     NetYouTubeCommentInsert ''ytok'' ''c1'' (replicate 500 CHR ''a'') \<and>
   list_all short_call (new_calls ex_world
     (snd (youtube_POST (ex_external\<lparr>openrouter := ex_long_answer\<rparr>) ex_request ex_world)))"
  using reply_at_most_500 [of ex_world "ex_external\<lparr>openrouter := ex_long_answer\<rparr>" ex_request]
    ex_long_reddit ex_long_youtube
  by simp

section \<open>Runs that reach the pipeline\<close>

lemma trim_Nil: "trim [] = []"
  by (simp add: trim_def)

lemma createLog_ok:
  "log_ok ext a \<Longrightarrow>
   createLog ext a lvl msg w =
     (Value (), w\<lparr>logs := logs w @ [\<lparr>log_accountId = a, log_level = lvl, log_message = msg\<rparr>]\<rparr>)"
  by (simp add: createLog_def db_def log_ok_def)


lemma reddit_handler_admitted:
  "reddit_admitted ext req w a account \<Longrightarrow>
   reddit_handler ext req w = reddit_validate ext a account w"
  by (simp add: reddit_admitted_def reddit_handler_def required_def bind_def)

lemma reddit_validate_validated:
  "reddit_validated account creds tok cfg oc k m \<Longrightarrow>
   reddit_validate ext a account = reddit_pipeline ext a creds tok cfg oc k m"
  by (cases "rcfg_keywords cfg = []")
    (auto simp: reddit_validated_def reddit_validate_def required_def trim_Nil Let_def)

lemma youtube_handler_admitted:
  "youtube_admitted ext req w a account \<Longrightarrow>
   youtube_handler ext req w = youtube_validate ext a account w"
  by (simp add: youtube_admitted_def youtube_handler_def required_def bind_def db_def)

lemma youtube_validate_validated:
  "youtube_validated account creds tok oc k m \<Longrightarrow>
   youtube_validate ext a account = youtube_pipeline ext a account creds oc k m"
  by (auto simp: youtube_validated_def youtube_validate_def required_def truthy_def
      split: option.splits)

lemma reddit_POST_of_handler:
  "reddit_handler ext req w = (Return r, w') \<Longrightarrow> reddit_POST ext req w = (r, w')"
  by (simp add: reddit_POST_def)

lemma youtube_POST_of_handler:
  "youtube_handler ext req w = (Return r, w') \<Longrightarrow> youtube_POST ext req w = (r, w')"
  by (simp add: youtube_POST_def)

lemma bind_Value: "m w = (Value x, w') \<Longrightarrow> bind m f w = f x w'"
  by (simp add: bind_def)


lemma reddit_started:
  "log_ok ext a \<Longrightarrow>
   createLog ext a Info ''Starting Reddit pipeline'' w
     = (Value (), started a ''Starting Reddit pipeline'' w)"
  by (simp add: createLog_ok started_def)



lemma reddit_record_stage_Value:
  assumes log: "log_ok ext a"
  shows "fst (reddit_record_stage ext a tp r c w) = Value ()"
  by (simp add: reddit_record_stage_def try_catch_def reddit_store_def bind_def db_def ret_def
      createLog_ok [OF log] split: option.splits)


lemma reddit_replied_run:
  assumes adm: "reddit_admitted ext req w a account"
    and log: "log_ok ext a"
    and val: "reddit_validated account creds tok cfg oc k m"
    and tok: "reddit_token_stage ext a creds tok (started a ''Starting Reddit pipeline'' w)
        = (Value at, w1)"
    and srch: "reddit_search_stage ext a at (rcfg_keywords cfg)
        (or_else (Some (rcfg_timeRange cfg)) ''day'') w1 = (Value posts, w2)"
    and sel: "reddit_select_stage ext a creds cfg posts w2 = (Value tp, w3)"
    and gen: "reddit_generate_stage ext a oc k m tp w3 = (Value reply, w4)"
    and pub: "reddit_publish_stage ext a at tp reply w4 = (Value cid, w5)"
  shows "reddit_POST ext req w
      = (json (BReplied (post_author tp) (post_title tp) reply) 200,
         snd (reddit_record_stage ext a tp reply cid w5))"
proof -
  have rec: "reddit_record_stage ext a tp reply cid w5
      = (Value (), snd (reddit_record_stage ext a tp reply cid w5))"
    using reddit_record_stage_Value [OF log, of tp reply cid w5]
    by (simp add: prod_eq_iff)
  have "reddit_handler ext req w = reddit_pipeline ext a creds tok cfg oc k m w"
    by (simp add: reddit_handler_admitted [OF adm] reddit_validate_validated [OF val])
  also have "\<dots> = (Value (json (BReplied (post_author tp) (post_title tp) reply) 200),
      snd (reddit_record_stage ext a tp reply cid w5))"
    unfolding reddit_pipeline_def
    by (simp only:
        bind_Value [of "createLog ext a Info ''Starting Reddit pipeline''",
          OF reddit_started [OF log]]
        bind_Value [of "reddit_token_stage ext a creds tok", OF tok]
        bind_Value [of "reddit_search_stage ext a at (rcfg_keywords cfg)
          (or_else (Some (rcfg_timeRange cfg)) ''day'')", OF srch]
        bind_Value [of "reddit_select_stage ext a creds cfg posts", OF sel]
        bind_Value [of "reddit_generate_stage ext a oc k m tp", OF gen]
        bind_Value [of "reddit_publish_stage ext a at tp reply", OF pub]
        bind_Value [of "reddit_record_stage ext a tp reply cid", OF rec] ret_def)
  finally show ?thesis by (simp add: reddit_POST_def)
qed









section \<open>Retention\<close>

lemma filter_notin_drop:
  assumes "distinct xs"
  shows "filter (\<lambda>x. x \<notin> set (drop n xs)) xs = take n xs"
proof -
  from assms have disj: "set (take n xs) \<inter> set (drop n xs) = {}"
    by (rule set_take_disj_set_drop_if_distinct) simp
  have "filter (\<lambda>x. x \<notin> set (drop n xs)) xs =
      filter (\<lambda>x. x \<notin> set (drop n xs)) (take n xs) @
      filter (\<lambda>x. x \<notin> set (drop n xs)) (drop n xs)"
    by (metis append_take_drop_id filter_append)
  moreover have "filter (\<lambda>x. x \<notin> set (drop n xs)) (take n xs) = take n xs"
    using disj by (auto intro!: filter_True)
  moreover have "filter (\<lambda>x. x \<notin> set (drop n xs)) (drop n xs) = []"
    by (simp add: filter_empty_conv)
  ultimately show ?thesis by simp
qed

lemma ids_inj:
  "distinct (map ri_id rows) \<Longrightarrow> i \<in> set rows \<Longrightarrow> j \<in> set rows \<Longrightarrow> ri_id i = ri_id j \<Longrightarrow> i = j"
  by (meson distinct_map inj_onD)

lemma oldInteractions_subset:
  "r \<in> set (oldInteractions a rows) \<Longrightarrow> r \<in> set rows \<and> ri_accountId r = a"
  unfolding oldInteractions_def
  by (auto dest!: in_set_dropD simp: set_js_sort)

lemma deleted_iff_old:
  assumes d: "distinct (map ri_id rows)" and i: "i \<in> set rows"
  shows "ri_id i \<in> ri_id ` set (oldInteractions a rows) \<longleftrightarrow> i \<in> set (oldInteractions a rows)"
proof
  assume "ri_id i \<in> ri_id ` set (oldInteractions a rows)"
  then obtain r where r: "r \<in> set (oldInteractions a rows)" and eq: "ri_id i = ri_id r"
    by auto
  from r have "r \<in> set rows" by (simp add: oldInteractions_subset)
  with d i eq have "i = r" by (auto dest: ids_inj)
  with r show "i \<in> set (oldInteractions a rows)" by simp
qed simp

lemma prune_exact:
  assumes d: "distinct (map ri_id rows)"
  shows "reddit_deleteMany (map ri_id (oldInteractions a rows)) rows
         = filter (\<lambda>i. i \<notin> set (oldInteractions a rows)) rows"
  unfolding reddit_deleteMany_def
  by (rule filter_cong) (auto simp: deleted_iff_old [OF d])

lemma prune_count_exact:
  assumes d: "distinct (map ri_id rows)"
  shows "length (filter (\<lambda>i. ri_accountId i = a)
           (reddit_deleteMany (map ri_id (oldInteractions a rows)) rows))
         = min 100 (length (filter (\<lambda>i. ri_accountId i = a) rows))"
proof -
  let ?A = "filter (\<lambda>i. ri_accountId i = a) rows"
  let ?S = "js_sort (\<lambda>x y. ri_createdAt y - ri_createdAt x) ?A"
  from d have dr: "distinct rows" by (simp add: distinct_map)
  then have dS: "distinct ?S" by (simp add: distinct_js_sort)
  have "filter (\<lambda>i. ri_accountId i = a)
          (reddit_deleteMany (map ri_id (oldInteractions a rows)) rows)
        = filter (\<lambda>i. i \<notin> set (oldInteractions a rows)) ?A"
    unfolding reddit_deleteMany_def filter_filter
    by (rule filter_cong) (auto simp: deleted_iff_old [OF d])
  also have "length \<dots> = length (filter (\<lambda>i. i \<notin> set (drop 100 ?S)) ?S)"
    by (simp add: oldInteractions_def length_filter_js_sort)
  also have "\<dots> = length (take 100 ?S)"
    by (simp only: filter_notin_drop [OF dS])
  finally show ?thesis by (simp add: length_js_sort min.commute)
qed

lemma youtube_deleteMany_exact:
  "youtube_deleteMany a t rows = filter (\<lambda>i. yi_accountId i \<noteq> a \<or> t \<le> yi_createdAt i) rows"
  unfolding youtube_deleteMany_def by (rule filter_cong) auto

lemma prune_rows_exact:
  assumes d: "distinct (map ri_id rows)"
  shows "reddit_deleteMany (map ri_id (oldInteractions a rows)) rows
         = filter (\<lambda>i. ri_accountId i \<noteq> a \<or>
             i \<in> set (take 100 (js_sort (\<lambda>x y. ri_createdAt y - ri_createdAt x)
               (filter (\<lambda>i. ri_accountId i = a) rows)))) rows"
proof -
  let ?A = "filter (\<lambda>i. ri_accountId i = a) rows"
  let ?S = "js_sort (\<lambda>x y. ri_createdAt y - ri_createdAt x) ?A"
  from d have "distinct rows" by (simp add: distinct_map)
  then have dS: "distinct ?S" by (simp add: distinct_js_sort)
  then have disj: "set (take 100 ?S) \<inter> set (drop 100 ?S) = {}"
    by (rule set_take_disj_set_drop_if_distinct) simp
  have un: "set (take 100 ?S) \<union> set (drop 100 ?S) = set ?A"
    using set_append [of "take 100 ?S" "drop 100 ?S"] by (simp add: set_js_sort del: set_append)
  have "reddit_deleteMany (map ri_id (oldInteractions a rows)) rows
      = filter (\<lambda>i. i \<notin> set (drop 100 ?S)) rows"
    by (simp add: prune_exact [OF d]) (simp add: oldInteractions_def)
  also have "\<dots> = filter (\<lambda>i. ri_accountId i \<noteq> a \<or> i \<in> set (take 100 ?S)) rows"
  proof (rule filter_cong [OF refl])
    fix i assume "i \<in> set rows"
    then show "(i \<notin> set (drop 100 ?S)) = (ri_accountId i \<noteq> a \<or> i \<in> set (take 100 ?S))"
      using disj un by auto
  qed
  finally show ?thesis .
qed

lemma prune_oldest_first:
  assumes d: "distinct (map ri_id rows)"
    and kept: "kept \<in> set (reddit_deleteMany (map ri_id (oldInteractions a rows)) rows)"
    and acct: "ri_accountId kept = a"
    and gone: "gone \<in> set rows"
      "gone \<notin> set (reddit_deleteMany (map ri_id (oldInteractions a rows)) rows)"
  shows "ri_createdAt gone \<le> ri_createdAt kept"
proof -
  let ?A = "filter (\<lambda>i. ri_accountId i = a) rows"
  let ?S = "js_sort (\<lambda>x y. ri_createdAt y - ri_createdAt x) ?A"
  from gone have "ri_id gone \<in> ri_id ` set (oldInteractions a rows)"
    by (auto simp: reddit_deleteMany_def)
  then have "gone \<in> set (oldInteractions a rows)"
    by (simp only: deleted_iff_old [OF d gone(1)])
  then have g: "gone \<in> set (drop 100 ?S)"
    by (simp add: oldInteractions_def)
  from kept have k: "kept \<in> set rows" "ri_id kept \<notin> ri_id ` set (oldInteractions a rows)"
    by (auto simp: reddit_deleteMany_def)
  then have "kept \<notin> set (oldInteractions a rows)"
    by (simp only: deleted_iff_old [OF d k(1)] not_False_eq_True)
  then have "kept \<notin> set (drop 100 ?S)"
    by (simp add: oldInteractions_def)
  moreover from k acct have "kept \<in> set ?S" by (simp add: set_js_sort)
  ultimately have "kept \<in> set (take 100 ?S)"
    using set_append [of "take 100 ?S" "drop 100 ?S"] by (simp del: set_append)
  moreover have "sorted_wrt (\<lambda>x y. ri_createdAt x \<ge> ri_createdAt y) (take 100 ?S @ drop 100 ?S)"
    using sorted_js_sort [of ri_createdAt ?A] by simp
  ultimately show ?thesis using g
    unfolding sorted_wrt_append by blast
qed

lemma prune_other_accounts:
  assumes d: "distinct (map ri_id rows)"
  shows "filter (\<lambda>i. ri_accountId i \<noteq> a)
           (reddit_deleteMany (map ri_id (oldInteractions a rows)) rows)
         = filter (\<lambda>i. ri_accountId i \<noteq> a) rows"
  unfolding reddit_deleteMany_def filter_filter
proof (rule filter_cong [OF refl])
  fix i assume i: "i \<in> set rows"
  show "(ri_id i \<notin> set (map ri_id (oldInteractions a rows)) \<and> ri_accountId i \<noteq> a)
      = (ri_accountId i \<noteq> a)"
    using deleted_iff_old [OF d i, of a] oldInteractions_subset [of i a rows] by auto
qed

lemma le_foldr_max: "x \<in> set ids \<Longrightarrow> x \<le> foldr max ids (0::nat)"
  by (induction ids) (auto simp: max_def)

lemma fresh_id_new: "fresh_id ids \<notin> set ids"
  using le_foldr_max [of "fresh_id ids" ids] by (auto simp: fresh_id_def)

lemma reddit_upsert_distinct:
  "distinct (map ri_id rows) \<Longrightarrow> distinct (map ri_id (reddit_upsert ext a p r c rows))"
  using fresh_id_new [of "map ri_id rows"]
  by (auto simp: reddit_upsert_def comp_def if_distrib [of ri_id] cong: if_cong)

lemma filter_other_map:
  "(\<And>i. ri_accountId (g i) = ri_accountId i) \<Longrightarrow>
   filter (\<lambda>i. ri_accountId i \<noteq> a)
     (map (\<lambda>i. if ri_accountId i = a \<and> Q i then g i else i) rows)
   = filter (\<lambda>i. ri_accountId i \<noteq> a) rows"
  by (induction rows) auto

lemma reddit_upsert_other_accounts:
  "filter (\<lambda>i. ri_accountId i \<noteq> a) (reddit_upsert ext a p r c rows)
   = filter (\<lambda>i. ri_accountId i \<noteq> a) rows"
  unfolding reddit_upsert_def by (simp add: filter_other_map)

lemma reddit_deleteMany_Nil: "reddit_deleteMany [] rows = rows"
  by (simp add: reddit_deleteMany_def)

lemma reddit_store_ok:
  assumes "db_throws ext (RedditInteractionUpsert a (post_id tp)) = None"
    and "db_throws ext (RedditInteractionFindOld a) = None"
    and "\<forall>ids. db_throws ext (RedditInteractionDeleteMany ids) = None"
  shows "reddit_store ext a tp r c w =
    (Value (), w\<lparr>redditInteractions :=
       reddit_deleteMany
         (map ri_id (oldInteractions a (reddit_upsert ext a tp r c (redditInteractions w))))
         (reddit_upsert ext a tp r c (redditInteractions w))\<rparr>)"
  using assms
  by (cases "oldInteractions a (reddit_upsert ext a tp r c (redditInteractions w))")
    (simp_all add: reddit_store_def bind_def db_def ret_def reddit_deleteMany_Nil)

lemma reddit_record_stage_ok:
  assumes "db_throws ext (RedditInteractionUpsert a (post_id tp)) = None"
    and "db_throws ext (RedditInteractionFindOld a) = None"
    and "\<forall>ids. db_throws ext (RedditInteractionDeleteMany ids) = None"
  shows "reddit_record_stage ext a tp r c w =
    (Value (), w\<lparr>redditInteractions :=
       reddit_deleteMany
         (map ri_id (oldInteractions a (reddit_upsert ext a tp r c (redditInteractions w))))
         (reddit_upsert ext a tp r c (redditInteractions w))\<rparr>)"
  by (simp add: reddit_record_stage_def try_catch_def reddit_store_ok [OF assms])

lemma youtube_store_ok:
  assumes "db_throws ext (YouTubeInteractionUpsert a (cm_commentId c)) = None"
    and "\<forall>t. db_throws ext (YouTubeInteractionDeleteMany a t) = None"
  shows "youtube_store ext a c r rid w =
    (Value (), w\<lparr>youtubeInteractions :=
       youtube_deleteMany a (now_prune ext - 14 * 24 * 60 * 60 * 1000)
         (youtube_upsert ext a c r rid (youtubeInteractions w))\<rparr>)"
  using assms by (simp add: youtube_store_def bind_def db_def Let_def)

text \<open>
  C9, as the code has it. When the calls that prune do not throw, the record is followed
  by the pruning and the bound holds exactly. Reddit (row identifiers being unique): the
  table becomes the table after the upsert without the account's rows beyond the first 100
  in the order newest first; so the account keeps 100 of its rows, or all of them when they
  are fewer, no kept row of the account is older than a deleted one, and the rows of other
  accounts are untouched. YouTube: the table becomes the table after the upsert without the
  account's rows created more than 14 days before the pruning instant; every other row
  stays.
\<close>

theorem retention_bound_after_record:
  "(db_throws ext (RedditInteractionUpsert a (post_id tp)) = None \<and>
    db_throws ext (RedditInteractionFindOld a) = None \<and>
    (\<forall>ids. db_throws ext (RedditInteractionDeleteMany ids) = None) \<and>
    distinct (map ri_id (redditInteractions w)) \<longrightarrow>
      fst (reddit_record_stage ext a tp reply cid w) = Value () \<and>
      redditInteractions (snd (reddit_record_stage ext a tp reply cid w))
      = filter (\<lambda>i. ri_accountId i \<noteq> a \<or>
          i \<in> set (take 100 (js_sort (\<lambda>x y. ri_createdAt y - ri_createdAt x)
            (filter (\<lambda>i. ri_accountId i = a)
              (reddit_upsert ext a tp reply cid (redditInteractions w))))))
          (reddit_upsert ext a tp reply cid (redditInteractions w)) \<and>
      length (filter (\<lambda>i. ri_accountId i = a)
        (redditInteractions (snd (reddit_record_stage ext a tp reply cid w))))
      = min 100 (length (filter (\<lambda>i. ri_accountId i = a)
          (reddit_upsert ext a tp reply cid (redditInteractions w)))) \<and>
      (\<forall>kept \<in> set (redditInteractions (snd (reddit_record_stage ext a tp reply cid w))).
       \<forall>gone \<in> set (reddit_upsert ext a tp reply cid (redditInteractions w))
                - set (redditInteractions (snd (reddit_record_stage ext a tp reply cid w))).
         ri_accountId kept = a \<longrightarrow> ri_createdAt gone \<le> ri_createdAt kept) \<and>
      filter (\<lambda>i. ri_accountId i \<noteq> a)
        (redditInteractions (snd (reddit_record_stage ext a tp reply cid w)))
      = filter (\<lambda>i. ri_accountId i \<noteq> a) (redditInteractions w)) \<and>
   (db_throws ext (YouTubeInteractionUpsert a (cm_commentId c)) = None \<and>
    (\<forall>t. db_throws ext (YouTubeInteractionDeleteMany a t) = None) \<longrightarrow>
      fst (youtube_store ext a c reply rid w) = Value () \<and>
      youtubeInteractions (snd (youtube_store ext a c reply rid w))
      = filter (\<lambda>i. yi_accountId i \<noteq> a \<or>
                    now_prune ext - 14 * 24 * 60 * 60 * 1000 \<le> yi_createdAt i)
          (youtube_upsert ext a c reply rid (youtubeInteractions w)) \<and>
      (\<forall>i \<in> set (youtubeInteractions (snd (youtube_store ext a c reply rid w))).
         yi_accountId i = a \<longrightarrow> now_prune ext - 14 * 24 * 60 * 60 * 1000 \<le> yi_createdAt i))"
proof (intro conjI impI)
  assume h: "db_throws ext (RedditInteractionUpsert a (post_id tp)) = None \<and>
    db_throws ext (RedditInteractionFindOld a) = None \<and>
    (\<forall>ids. db_throws ext (RedditInteractionDeleteMany ids) = None) \<and>
    distinct (map ri_id (redditInteractions w))"
  let ?U = "reddit_upsert ext a tp reply cid (redditInteractions w)"
  let ?D = "reddit_deleteMany (map ri_id (oldInteractions a ?U)) ?U"
  from h have run: "reddit_record_stage ext a tp reply cid w =
      (Value (), w\<lparr>redditInteractions := ?D\<rparr>)"
    by (intro reddit_record_stage_ok) simp_all
  from h have d: "distinct (map ri_id ?U)" by (simp add: reddit_upsert_distinct)
  show "fst (reddit_record_stage ext a tp reply cid w) = Value ()"
    by (simp add: run)
  show "redditInteractions (snd (reddit_record_stage ext a tp reply cid w))
      = filter (\<lambda>i. ri_accountId i \<noteq> a \<or>
          i \<in> set (take 100 (js_sort (\<lambda>x y. ri_createdAt y - ri_createdAt x)
            (filter (\<lambda>i. ri_accountId i = a) ?U)))) ?U"
    using prune_rows_exact [OF d, of a] by (simp add: run)
  show "length (filter (\<lambda>i. ri_accountId i = a)
      (redditInteractions (snd (reddit_record_stage ext a tp reply cid w))))
      = min 100 (length (filter (\<lambda>i. ri_accountId i = a) ?U))"
    using prune_count_exact [OF d, of a] by (simp add: run)
  show "\<forall>kept \<in> set (redditInteractions (snd (reddit_record_stage ext a tp reply cid w))).
       \<forall>gone \<in> set ?U - set (redditInteractions (snd (reddit_record_stage ext a tp reply cid w))).
         ri_accountId kept = a \<longrightarrow> ri_createdAt gone \<le> ri_createdAt kept"
    using prune_oldest_first [OF d] by (simp add: run)
  show "filter (\<lambda>i. ri_accountId i \<noteq> a)
        (redditInteractions (snd (reddit_record_stage ext a tp reply cid w)))
      = filter (\<lambda>i. ri_accountId i \<noteq> a) (redditInteractions w)"
    by (simp add: run prune_other_accounts [OF d] reddit_upsert_other_accounts)
next
  assume h: "db_throws ext (YouTubeInteractionUpsert a (cm_commentId c)) = None \<and>
    (\<forall>t. db_throws ext (YouTubeInteractionDeleteMany a t) = None)"
  then have run: "youtube_store ext a c reply rid w =
    (Value (), w\<lparr>youtubeInteractions :=
       youtube_deleteMany a (now_prune ext - 14 * 24 * 60 * 60 * 1000)
         (youtube_upsert ext a c reply rid (youtubeInteractions w))\<rparr>)"
    by (intro youtube_store_ok) simp_all
  show "fst (youtube_store ext a c reply rid w) = Value ()"
    by (simp add: run)
  show "youtubeInteractions (snd (youtube_store ext a c reply rid w))
      = filter (\<lambda>i. yi_accountId i \<noteq> a \<or>
                    now_prune ext - 14 * 24 * 60 * 60 * 1000 \<le> yi_createdAt i)
          (youtube_upsert ext a c reply rid (youtubeInteractions w))"
    by (simp add: run youtube_deleteMany_exact)
  show "\<forall>i \<in> set (youtubeInteractions (snd (youtube_store ext a c reply rid w))).
         yi_accountId i = a \<longrightarrow> now_prune ext - 14 * 24 * 60 * 60 * 1000 \<le> yi_createdAt i"
    by (auto simp: run youtube_deleteMany_def)
qed

lemma ex_full_upsert:
  "reddit_upsert ext ''a1'' (ex_post ''p1'' ''ann'' 20) r c (map ex_row [0..<101]) =
   map ex_row [0..<101] @
        [\<lparr>ri_id = fresh_id (map ri_id (map ex_row [0..<101])), ri_accountId = ''a1'',
          ri_postId = ''p1'', ri_subreddit = ''cats'',
          ri_postTitle = ''On cats'', ri_postAuthor = ''ann'',
          ri_postUrl = ''https://reddit.com/r/cats/p1'',
          ri_upvotes = 20, ri_commentCount = 2,
          ri_ourComment = r, ri_ourCommentId = c,
          ri_repliedAt = now_replied ext, ri_createdAt = now_created ext\<rparr>]"
  by (simp add: reddit_upsert_def ex_row_def ex_post_def list_ex_iff ex_row_not_post comp_def)

theorem retention_bound_after_record_witness:
  "distinct (map ri_id (redditInteractions ex_full_world)) \<and>
   length (filter (\<lambda>i. ri_accountId i = ''a1'') (redditInteractions ex_full_world)) = 101 \<and>
   length (filter (\<lambda>i. ri_accountId i = ''a1'')
     (reddit_upsert ex_external ''a1'' (ex_post ''p1'' ''ann'' 20) ''nice'' ''t1_x''
        (redditInteractions ex_full_world))) = 102 \<and>
   length (filter (\<lambda>i. ri_accountId i = ''a1'')
     (redditInteractions (snd (reddit_record_stage ex_external ''a1'' (ex_post ''p1'' ''ann'' 20)
        ''nice'' ''t1_x'' ex_full_world)))) = 100 \<and>
   map yi_commentId (youtubeInteractions ex_stale_world) = [''c0''] \<and>
   yi_createdAt ex_stale_row < now_prune ex_external - 14 * 24 * 60 * 60 * 1000 \<and>
   map yi_commentId (youtubeInteractions (snd (youtube_store ex_external ''a1''
        (comment_of_thread ''v1'' ''Video'' ex_thread) ''nice'' ''r1'' ex_stale_world)))
     = [''c1'']"
proof -
  have 1: "distinct (map ri_id (redditInteractions ex_full_world))"
    by (simp add: ex_full_world_def ex_world_def ex_row_def comp_def)
  have 2: "length (filter (\<lambda>i. ri_accountId i = ''a1'') (redditInteractions ex_full_world)) = 101"
    by (simp add: ex_full_world_def ex_world_def ex_row_def comp_def filter_map)
  have 3: "db_throws ex_external call = None" for call
    by (simp add: ex_external_def)
  have 4: "length (filter (\<lambda>i. ri_accountId i = ''a1'')
     (reddit_upsert ex_external ''a1'' (ex_post ''p1'' ''ann'' 20) ''nice'' ''t1_x''
        (redditInteractions ex_full_world))) = 102"
    by (simp add: ex_full_world_def ex_world_def ex_full_upsert ex_row_def comp_def filter_map)
  have 5: "map yi_commentId (youtubeInteractions ex_stale_world) = [''c0'']"
    by (simp add: ex_stale_world_def ex_world_def ex_stale_row_def)
  have 6: "yi_createdAt ex_stale_row < now_prune ex_external - 14 * 24 * 60 * 60 * 1000"
    by (simp add: ex_stale_row_def ex_external_def)
  from retention_bound_after_record [of ex_external "''a1''" "ex_post ''p1'' ''ann'' 20"
      ex_full_world "''nice''" "''t1_x''" "comment_of_thread ''v1'' ''Video'' ex_thread"
      "''r1''"] 1 3
  have "length (filter (\<lambda>i. ri_accountId i = ''a1'')
     (redditInteractions (snd (reddit_record_stage ex_external ''a1'' (ex_post ''p1'' ''ann'' 20)
        ''nice'' ''t1_x'' ex_full_world))))
     = min 100 (length (filter (\<lambda>i. ri_accountId i = ''a1'')
         (reddit_upsert ex_external ''a1'' (ex_post ''p1'' ''ann'' 20) ''nice'' ''t1_x''
            (redditInteractions ex_full_world))))"
    by blast
  with 4 have 7: "length (filter (\<lambda>i. ri_accountId i = ''a1'')
     (redditInteractions (snd (reddit_record_stage ex_external ''a1'' (ex_post ''p1'' ''ann'' 20)
        ''nice'' ''t1_x'' ex_full_world)))) = 100"
    by simp
  from retention_bound_after_record [where ext = ex_external and a = "''a1''"
      and c = "comment_of_thread ''v1'' ''Video'' ex_thread" and reply = "''nice''"
      and rid = "''r1''" and w = ex_stale_world and tp = "ex_post ''p1'' ''ann'' 20"
      and cid = "''t1_x''"] 3
  have "youtubeInteractions (snd (youtube_store ex_external ''a1''
        (comment_of_thread ''v1'' ''Video'' ex_thread) ''nice'' ''r1'' ex_stale_world))
      = filter (\<lambda>i. yi_accountId i \<noteq> ''a1'' \<or>
                    now_prune ex_external - 14 * 24 * 60 * 60 * 1000 \<le> yi_createdAt i)
          (youtube_upsert ex_external ''a1'' (comment_of_thread ''v1'' ''Video'' ex_thread)
             ''nice'' ''r1'' (youtubeInteractions ex_stale_world))"
    by blast
  then have 8: "map yi_commentId (youtubeInteractions (snd (youtube_store ex_external ''a1''
        (comment_of_thread ''v1'' ''Video'' ex_thread) ''nice'' ''r1'' ex_stale_world)))
     = [''c1'']"
    by (simp add: youtube_upsert_def ex_stale_world_def ex_world_def ex_stale_row_def
        comment_of_thread_def ex_thread_def ex_external_def)
  from 1 2 4 5 6 7 8 show ?thesis by simp
qed

text \<open>
  The table takes the new row and refuses the deletion. The Reddit run has recorded the
  interaction, logs a warning, answers 200 and leaves 102 rows of the account. The YouTube
  run has recorded the interaction, answers 500 and leaves the row of 20 days ago.
\<close>

theorem pruning_failure_counterexample:
  "length (filter (\<lambda>i. ri_accountId i = ''a1'') (redditInteractions ex_full_world)) = 101 \<and>
   fst (reddit_POST (ex_external\<lparr>db_throws := ex_delete_fails\<rparr>) ex_request ex_full_world)
     = json (BReplied ''ann'' ''On cats'' ''nice'') 200 \<and>
   length (filter (\<lambda>i. ri_accountId i = ''a1'')
     (redditInteractions
        (snd (reddit_POST (ex_external\<lparr>db_throws := ex_delete_fails\<rparr>) ex_request
           ex_full_world)))) = 102 \<and>
   last (logs (snd (reddit_POST (ex_external\<lparr>db_throws := ex_delete_fails\<rparr>) ex_request
      ex_full_world)))
     = \<lparr>log_accountId = ''a1'', log_level = Warning,
        log_message = ''Comment posted but failed to record in database''\<rparr> \<and>
   map yi_commentId (youtubeInteractions ex_stale_world) = [''c0''] \<and>
   yi_createdAt ex_stale_row
     < now_prune (ex_external\<lparr>db_throws := ex_delete_fails\<rparr>) - 14 * 24 * 60 * 60 * 1000 \<and>
   fst (youtube_POST (ex_external\<lparr>db_throws := ex_delete_fails\<rparr>) ex_request ex_stale_world)
     = json (BError ''Pipeline failed unexpectedly'') 500 \<and>
   map yi_commentId (youtubeInteractions
      (snd (youtube_POST (ex_external\<lparr>db_throws := ex_delete_fails\<rparr>) ex_request
         ex_stale_world)))
     = [''c0'', ''c1'']"
proof -
  let ?E = "ex_external\<lparr>db_throws := ex_delete_fails\<rparr>"
  let ?r1 = "started ''a1'' ''Starting Reddit pipeline'' ex_full_world"
  let ?posts = "[ex_post ''p1'' ''ann'' 20, ex_post ''p2'' ''bob'' 20]"
  let ?p = "ex_post ''p1'' ''ann'' 20"
  note defs = ex_defs ex_more_defs io_defs reddit_defs js_defs Let_def
  define r2 where "r2 = snd (reddit_search_stage ?E ''a1'' ''tok''
      (rcfg_keywords ex_reddit_config) (or_else (Some (rcfg_timeRange ex_reddit_config)) ''day'')
      ?r1)"
  define r3 where "r3 = snd (reddit_select_stage ?E ''a1'' ex_reddit_credentials
      ex_reddit_config ?posts r2)"
  define r4 where "r4 = snd (reddit_generate_stage ?E ''a1'' ex_openrouter ''key'' ''model''
      ?p r3)"
  define r5 where "r5 = snd (reddit_publish_stage ?E ''a1'' ''tok'' ?p ''nice'' r4)"
  have n: "length (filter (\<lambda>i. ri_accountId i = ''a1'') (redditInteractions ex_full_world))
      = 101"
    by (simp add: ex_full_world_def ex_world_def ex_row_def comp_def filter_map)
  have tok: "reddit_token_stage ?E ''a1'' ex_reddit_credentials ''tok'' ?r1 = (Value ''tok'', ?r1)"
    by (simp add: defs)
  have srch: "reddit_search_stage ?E ''a1'' ''tok'' (rcfg_keywords ex_reddit_config)
      (or_else (Some (rcfg_timeRange ex_reddit_config)) ''day'') ?r1 = (Value ?posts, r2)"
    by (simp add: r2_def prod_eq_iff defs)
  have sel: "reddit_select_stage ?E ''a1'' ex_reddit_credentials ex_reddit_config ?posts r2
      = (Value ?p, r3)"
    by (simp add: r3_def r2_def prod_eq_iff defs ex_row_def filter_map comp_def image_iff
        ex_row_not_post)
  have gen: "reddit_generate_stage ?E ''a1'' ex_openrouter ''key'' ''model'' ?p r3
      = (Value ''nice'', r4)"
    by (simp add: r4_def prod_eq_iff defs)
  have pub: "reddit_publish_stage ?E ''a1'' ''tok'' ?p ''nice'' r4 = (Value ''t1_x'', r5)"
    by (simp add: r5_def prod_eq_iff defs)
  have rows: "redditInteractions r5 = map ex_row [0..<101]"
    by (simp add: r5_def r4_def r3_def r2_def defs ex_row_def filter_map comp_def image_iff
        ex_row_not_post)
  have run: "reddit_POST ?E ex_request ex_full_world
      = (json (BReplied ''ann'' ''On cats'' ''nice'') 200,
         snd (reddit_record_stage ?E ''a1'' ?p ''nice'' ''t1_x'' r5))"
    using reddit_replied_run [OF ex_plain_admitted(7) ex_plain_log_ok(3) ex_plain_validated(1)
        tok srch sel gen pub]
    by (simp add: ex_post_def)
  have rec: "snd (reddit_record_stage ?E ''a1'' ?p ''nice'' ''t1_x'' r5)
      = r5\<lparr>redditInteractions := reddit_upsert ?E ''a1'' ?p ''nice'' ''t1_x''
             (map ex_row [0..<101]),
           logs := logs r5 @ [\<lparr>log_accountId = ''a1'', log_level = Warning,
             log_message = ''Comment posted but failed to record in database''\<rparr>]\<rparr>"
    by (simp add: reddit_record_stage_def reddit_store_def try_catch_def bind_def db_def
        createLog_def ex_delete_fails_def oldInteractions_def length_js_sort rows ex_full_upsert
        filter_map comp_def ex_row_def)
  have kept: "length (filter (\<lambda>i. ri_accountId i = ''a1'')
      (reddit_upsert ?E ''a1'' ?p ''nice'' ''t1_x'' (map ex_row [0..<101]))) = 102"
    by (simp add: ex_full_upsert ex_row_def comp_def filter_map)
  have old: "map yi_commentId (youtubeInteractions ex_stale_world) = [''c0'']"
    "yi_createdAt ex_stale_row < now_prune ?E - 14 * 24 * 60 * 60 * 1000"
    by (simp_all add: ex_stale_world_def ex_world_def ex_stale_row_def ex_external_def)
  have y: "fst (youtube_POST ?E ex_request ex_stale_world)
      = json (BError ''Pipeline failed unexpectedly'') 500"
    "map yi_commentId (youtubeInteractions (snd (youtube_POST ?E ex_request ex_stale_world)))
      = [''c0'', ''c1'']"
    by (auto simp add: ex_defs ex_more_defs io_defs youtube_defs js_defs Let_def
        ex_stale_world_def)
  from n kept old y show ?thesis
    by (simp add: run rec)
qed

section \<open>The token step\<close>

lemma reddit_refresh_valid:
  "expires_after expiresAt (now_token_check ext + 5 * 60 * 1000) \<Longrightarrow>
   reddit_refreshTokenIfNeeded ext a cid sec tok rt expiresAt w = (Value tok, w)"
  by (simp add: reddit_refreshTokenIfNeeded_def ret_def)

lemma reddit_refresh_no_token:
  "\<not> truthy rt \<Longrightarrow> \<not> expires_after expiresAt (now_token_check ext + 5 * 60 * 1000) \<Longrightarrow>
   reddit_refreshTokenIfNeeded ext a cid sec tok rt expiresAt w
     = (Throw ''No refresh token available'', w)"
  by (auto simp: reddit_refreshTokenIfNeeded_def required_def throw_def truthy_def
      split: option.splits)

lemma youtube_refresh_no_token:
  "\<not> truthy rt \<Longrightarrow>
   youtube_refreshTokenIfNeeded ext cid sec tok rt expiresAt w = (Value None, w)"
  by (auto simp: youtube_refreshTokenIfNeeded_def required_def ret_def truthy_def
      split: option.splits)

lemma youtube_refresh_valid:
  "tok \<noteq> [] \<Longrightarrow> rt \<noteq> [] \<Longrightarrow> now_token_check ext + 5 * 60 * 1000 < e \<Longrightarrow>
   youtube_refreshTokenIfNeeded ext cid sec (Some tok) (Some rt) (Some e) w
     = (Value (Some \<lparr>tr_accessToken = tok, tr_refreshToken = rt, tr_expiresAt = e\<rparr>), w)"
  by (simp add: youtube_refreshTokenIfNeeded_def required_def ret_def Let_def)

text \<open>
  C6. With a refresh token stored and the access token's expiry more than 5 minutes
  after the current time, the token step returns the stored access token and leaves the
  world as it is: nothing is appended to the trace of network calls and the stored
  credentials (as the whole database) are unchanged. For YouTube this includes the
  caller's write-back, which is skipped because the token did not change.
\<close>

theorem valid_token_is_reused:
  "(rc_refreshToken creds = Some rt \<and> rt \<noteq> [] \<and> rc_tokenExpiresAt creds = Some e \<and>
    now_token_check ext + 5 * 60 * 1000 < e \<longrightarrow>
      reddit_refreshTokenIfNeeded ext a (rc_clientId creds) (rc_clientSecret creds) tok
        (rc_refreshToken creds) (rc_tokenExpiresAt creds) w = (Value tok, w) \<and>
      reddit_token_stage ext a creds tok w = (Value tok, w)) \<and>
   (yc_accessToken ycreds = Some ytok \<and> ytok \<noteq> [] \<and>
    yc_refreshToken ycreds = Some yrt \<and> yrt \<noteq> [] \<and> yc_tokenExpiresAt ycreds = Some ye \<and>
    now_token_check ext + 5 * 60 * 1000 < ye \<longrightarrow>
      youtube_refreshTokenIfNeeded ext (yc_clientId ycreds) (yc_clientSecret ycreds)
        (yc_accessToken ycreds) (yc_refreshToken ycreds) (yc_tokenExpiresAt ycreds) w
        = (Value (Some \<lparr>tr_accessToken = ytok, tr_refreshToken = yrt, tr_expiresAt = ye\<rparr>), w) \<and>
      youtube_token_stage ext a ycreds w = (Value ytok, w))"
proof (intro conjI impI)
  assume h: "rc_refreshToken creds = Some rt \<and> rt \<noteq> [] \<and> rc_tokenExpiresAt creds = Some e \<and>
    now_token_check ext + 5 * 60 * 1000 < e"
  then have v: "expires_after (rc_tokenExpiresAt creds) (now_token_check ext + 5 * 60 * 1000)"
    by (simp add: expires_after_def)
  then show 1: "reddit_refreshTokenIfNeeded ext a (rc_clientId creds) (rc_clientSecret creds) tok
        (rc_refreshToken creds) (rc_tokenExpiresAt creds) w = (Value tok, w)"
    by (rule reddit_refresh_valid)
  then show "reddit_token_stage ext a creds tok w = (Value tok, w)"
    by (simp add: reddit_token_stage_def try_catch_def)
next
  assume h: "yc_accessToken ycreds = Some ytok \<and> ytok \<noteq> [] \<and>
    yc_refreshToken ycreds = Some yrt \<and> yrt \<noteq> [] \<and> yc_tokenExpiresAt ycreds = Some ye \<and>
    now_token_check ext + 5 * 60 * 1000 < ye"
  then show 1: "youtube_refreshTokenIfNeeded ext (yc_clientId ycreds) (yc_clientSecret ycreds)
        (yc_accessToken ycreds) (yc_refreshToken ycreds) (yc_tokenExpiresAt ycreds) w
        = (Value (Some \<lparr>tr_accessToken = ytok, tr_refreshToken = yrt, tr_expiresAt = ye\<rparr>), w)"
    by (simp add: youtube_refresh_valid)
  from h show "youtube_token_stage ext a ycreds w = (Value ytok, w)"
    by (simp add: youtube_token_stage_def bind_def youtube_refresh_valid ret_def)
qed

theorem valid_token_is_reused_witness:
  "rc_refreshToken ex_reddit_credentials = Some ''ref'' \<and>
   rc_tokenExpiresAt ex_reddit_credentials = Some 1000000 \<and>
   now_token_check ex_external + 5 * 60 * 1000 < 1000000 \<and>
   reddit_token_stage ex_external ''a1'' ex_reddit_credentials ''tok'' ex_world
     = (Value ''tok'', ex_world) \<and>
   yc_accessToken ex_youtube_credentials = Some ''ytok'' \<and>
   yc_refreshToken ex_youtube_credentials = Some ''yref'' \<and>
   yc_tokenExpiresAt ex_youtube_credentials = Some 1000000 \<and>
   youtube_token_stage ex_external ''a1'' ex_youtube_credentials ex_world
     = (Value ''ytok'', ex_world)"
  using valid_token_is_reused [of ex_reddit_credentials "''ref''" 1000000 ex_external "''a1''"
      "''tok''" ex_world ex_youtube_credentials "''ytok''" "''yref''" 1000000]
  by (simp add: ex_reddit_credentials_def ex_youtube_credentials_def ex_external_def)

lemma reddit_run_no_refresh_token:
  assumes adm: "reddit_admitted ext req w a account"
    and val: "reddit_validated account creds tok cfg oc k m"
    and log: "log_ok ext a"
    and rt: "\<not> truthy (rc_refreshToken creds)"
    and ex: "\<not> expires_after (rc_tokenExpiresAt creds) (now_token_check ext + 5 * 60 * 1000)"
  shows "reddit_POST ext req w =
    (json (BError ''Failed to refresh token'') 401,
     w\<lparr>logs := logs w @
        [\<lparr>log_accountId = a, log_level = Info, log_message = ''Starting Reddit pipeline''\<rparr>,
         \<lparr>log_accountId = a, log_level = Error,
          log_message = ''Token refresh failed: No refresh token available''\<rparr>]\<rparr>)"
proof -
  have "reddit_handler ext req w = reddit_pipeline ext a creds tok cfg oc k m w"
    by (simp add: reddit_handler_admitted [OF adm] reddit_validate_validated [OF val])
  also have "\<dots> = (Return (json (BError ''Failed to refresh token'') 401),
     w\<lparr>logs := logs w @
        [\<lparr>log_accountId = a, log_level = Info, log_message = ''Starting Reddit pipeline''\<rparr>,
         \<lparr>log_accountId = a, log_level = Error,
          log_message = ''Token refresh failed: No refresh token available''\<rparr>]\<rparr>)"
    by (simp add: reddit_pipeline_def bind_def createLog_ok [OF log] reddit_token_stage_def
        try_catch_def reddit_refresh_no_token [OF rt ex] respond_def)
  finally show ?thesis by (rule reddit_POST_of_handler)
qed

lemma youtube_run_no_refresh_token:
  assumes adm: "youtube_admitted ext req w a account"
    and val: "youtube_validated account creds tok oc k m"
    and log: "log_ok ext a"
    and rt: "\<not> truthy (yc_refreshToken creds)"
  shows "youtube_POST ext req w =
    (json (BError ''YouTube authentication failed'') 401,
     w\<lparr>logs := logs w @
        [\<lparr>log_accountId = a, log_level = Info, log_message = ''YouTube pipeline started''\<rparr>,
         \<lparr>log_accountId = a, log_level = Error,
          log_message = ''Failed to get valid access token''\<rparr>]\<rparr>)"
proof -
  have "youtube_handler ext req w = youtube_pipeline ext a account creds oc k m w"
    by (simp add: youtube_handler_admitted [OF adm] youtube_validate_validated [OF val])
  also have "\<dots> = (Return (json (BError ''YouTube authentication failed'') 401),
     w\<lparr>logs := logs w @
        [\<lparr>log_accountId = a, log_level = Info, log_message = ''YouTube pipeline started''\<rparr>,
         \<lparr>log_accountId = a, log_level = Error,
          log_message = ''Failed to get valid access token''\<rparr>]\<rparr>)"
    by (simp add: youtube_pipeline_def bind_def createLog_ok [OF log] youtube_token_stage_def
        youtube_refresh_no_token [OF rt] respond_def)
  finally show ?thesis by (rule youtube_POST_of_handler)
qed

text \<open>
  C5, as the code has it. A run that reaches the token step (the account is found and
  passes the handler's checks, the log table takes the entries) with no refresh token
  stored: on YouTube the step returns no token at once; on Reddit it throws at once unless
  the stored access token is still valid for more than 5 minutes. In both cases the run
  ends with 401, it has written two log entries and nothing else, and it has sent no
  request at all (no refresh, no content fetch).
\<close>

theorem no_refresh_token_ends_run_401:
  "(reddit_admitted ext req w a account \<and> reddit_validated account creds tok cfg oc k m \<and>
    log_ok ext a \<and> \<not> truthy (rc_refreshToken creds) \<and>
    \<not> expires_after (rc_tokenExpiresAt creds) (now_token_check ext + 5 * 60 * 1000) \<longrightarrow>
      reddit_refreshTokenIfNeeded ext a (rc_clientId creds) (rc_clientSecret creds) tok
        (rc_refreshToken creds) (rc_tokenExpiresAt creds) w
        = (Throw ''No refresh token available'', w) \<and>
      status (fst (reddit_POST ext req w)) = 401 \<and>
      new_calls w (snd (reddit_POST ext req w)) = [] \<and>
      snd (reddit_POST ext req w) = w\<lparr>logs := logs w @
        [\<lparr>log_accountId = a, log_level = Info, log_message = ''Starting Reddit pipeline''\<rparr>,
         \<lparr>log_accountId = a, log_level = Error,
          log_message = ''Token refresh failed: No refresh token available''\<rparr>]\<rparr>) \<and>
   (youtube_admitted ext req w a yaccount \<and> youtube_validated yaccount ycreds ytok yoc yk ym \<and>
    log_ok ext a \<and> \<not> truthy (yc_refreshToken ycreds) \<longrightarrow>
      youtube_refreshTokenIfNeeded ext (yc_clientId ycreds) (yc_clientSecret ycreds)
        (yc_accessToken ycreds) (yc_refreshToken ycreds) (yc_tokenExpiresAt ycreds) w
        = (Value None, w) \<and>
      status (fst (youtube_POST ext req w)) = 401 \<and>
      new_calls w (snd (youtube_POST ext req w)) = [] \<and>
      snd (youtube_POST ext req w) = w\<lparr>logs := logs w @
        [\<lparr>log_accountId = a, log_level = Info, log_message = ''YouTube pipeline started''\<rparr>,
         \<lparr>log_accountId = a, log_level = Error,
          log_message = ''Failed to get valid access token''\<rparr>]\<rparr>)"
proof (intro conjI impI)
  assume h: "reddit_admitted ext req w a account \<and> reddit_validated account creds tok cfg oc k m \<and>
    log_ok ext a \<and> \<not> truthy (rc_refreshToken creds) \<and>
    \<not> expires_after (rc_tokenExpiresAt creds) (now_token_check ext + 5 * 60 * 1000)"
  then have run: "reddit_POST ext req w =
    (json (BError ''Failed to refresh token'') 401,
     w\<lparr>logs := logs w @
        [\<lparr>log_accountId = a, log_level = Info, log_message = ''Starting Reddit pipeline''\<rparr>,
         \<lparr>log_accountId = a, log_level = Error,
          log_message = ''Token refresh failed: No refresh token available''\<rparr>]\<rparr>)"
    by (intro reddit_run_no_refresh_token [of ext req w a account creds tok cfg oc k m]) simp_all
  from h show "reddit_refreshTokenIfNeeded ext a (rc_clientId creds) (rc_clientSecret creds) tok
        (rc_refreshToken creds) (rc_tokenExpiresAt creds) w
        = (Throw ''No refresh token available'', w)"
    by (simp add: reddit_refresh_no_token)
  show "status (fst (reddit_POST ext req w)) = 401"
    by (simp add: run json_def)
  show "new_calls w (snd (reddit_POST ext req w)) = []"
    by (simp add: run new_calls_def)
  show "snd (reddit_POST ext req w) = w\<lparr>logs := logs w @
        [\<lparr>log_accountId = a, log_level = Info, log_message = ''Starting Reddit pipeline''\<rparr>,
         \<lparr>log_accountId = a, log_level = Error,
          log_message = ''Token refresh failed: No refresh token available''\<rparr>]\<rparr>"
    by (simp add: run)
next
  assume h: "youtube_admitted ext req w a yaccount \<and>
    youtube_validated yaccount ycreds ytok yoc yk ym \<and>
    log_ok ext a \<and> \<not> truthy (yc_refreshToken ycreds)"
  then have run: "youtube_POST ext req w =
    (json (BError ''YouTube authentication failed'') 401,
     w\<lparr>logs := logs w @
        [\<lparr>log_accountId = a, log_level = Info, log_message = ''YouTube pipeline started''\<rparr>,
         \<lparr>log_accountId = a, log_level = Error,
          log_message = ''Failed to get valid access token''\<rparr>]\<rparr>)"
    by (intro youtube_run_no_refresh_token [of ext req w a yaccount ycreds ytok yoc yk ym]) simp_all
  from h show "youtube_refreshTokenIfNeeded ext (yc_clientId ycreds) (yc_clientSecret ycreds)
        (yc_accessToken ycreds) (yc_refreshToken ycreds) (yc_tokenExpiresAt ycreds) w
        = (Value None, w)"
    by (simp add: youtube_refresh_no_token)
  show "status (fst (youtube_POST ext req w)) = 401"
    by (simp add: run json_def)
  show "new_calls w (snd (youtube_POST ext req w)) = []"
    by (simp add: run new_calls_def)
  show "snd (youtube_POST ext req w) = w\<lparr>logs := logs w @
        [\<lparr>log_accountId = a, log_level = Info, log_message = ''YouTube pipeline started''\<rparr>,
         \<lparr>log_accountId = a, log_level = Error,
          log_message = ''Failed to get valid access token''\<rparr>]\<rparr>"
    by (simp add: run)
qed

theorem no_refresh_token_ends_run_401_witness:
  "reddit_admitted ex_external ex_request
     (ex_world_with ex_reddit_no_refresh_expired ex_youtube_no_refresh) ''a1''
     (ex_account_with ex_reddit_no_refresh_expired ex_youtube_no_refresh) \<and>
   reddit_validated (ex_account_with ex_reddit_no_refresh_expired ex_youtube_no_refresh)
     ex_reddit_no_refresh_expired ''tok'' ex_reddit_config ex_openrouter ''key'' ''model'' \<and>
   \<not> truthy (rc_refreshToken ex_reddit_no_refresh_expired) \<and>
   \<not> expires_after (rc_tokenExpiresAt ex_reddit_no_refresh_expired)
       (now_token_check ex_external + 5 * 60 * 1000) \<and>
   status (fst (reddit_POST ex_external ex_request
     (ex_world_with ex_reddit_no_refresh_expired ex_youtube_no_refresh))) = 401 \<and>
   new_calls (ex_world_with ex_reddit_no_refresh_expired ex_youtube_no_refresh)
     (snd (reddit_POST ex_external ex_request
        (ex_world_with ex_reddit_no_refresh_expired ex_youtube_no_refresh))) = [] \<and>
   youtube_validated (ex_account_with ex_reddit_no_refresh_expired ex_youtube_no_refresh)
     ex_youtube_no_refresh ''ytok'' ex_openrouter ''key'' ''model'' \<and>
   \<not> truthy (yc_refreshToken ex_youtube_no_refresh) \<and>
   status (fst (youtube_POST ex_external ex_request
     (ex_world_with ex_reddit_no_refresh_expired ex_youtube_no_refresh))) = 401 \<and>
   new_calls (ex_world_with ex_reddit_no_refresh_expired ex_youtube_no_refresh)
     (snd (youtube_POST ex_external ex_request
        (ex_world_with ex_reddit_no_refresh_expired ex_youtube_no_refresh))) = []"
proof -
  have v: "reddit_validated (ex_account_with ex_reddit_no_refresh_expired ex_youtube_no_refresh)
     ex_reddit_no_refresh_expired ''tok'' ex_reddit_config ex_openrouter ''key'' ''model''"
    by (simp add: reddit_validated_def ex_creds_defs ex_defs js_defs)
  have yv: "youtube_validated (ex_account_with ex_reddit_no_refresh_expired ex_youtube_no_refresh)
     ex_youtube_no_refresh ''ytok'' ex_openrouter ''key'' ''model''"
    by (simp add: youtube_validated_def ex_creds_defs ex_defs js_defs)
  have t: "\<not> truthy (rc_refreshToken ex_reddit_no_refresh_expired)"
    "\<not> expires_after (rc_tokenExpiresAt ex_reddit_no_refresh_expired)
       (now_token_check ex_external + 5 * 60 * 1000)"
    "\<not> truthy (yc_refreshToken ex_youtube_no_refresh)"
    by (simp_all add: ex_creds_defs ex_defs js_defs)
  from no_refresh_token_ends_run_401 [of ex_external ex_request
      "ex_world_with ex_reddit_no_refresh_expired ex_youtube_no_refresh" "''a1''"
      "ex_account_with ex_reddit_no_refresh_expired ex_youtube_no_refresh"
      ex_reddit_no_refresh_expired "''tok''" ex_reddit_config ex_openrouter "''key''" "''model''"
      "ex_account_with ex_reddit_no_refresh_expired ex_youtube_no_refresh"
      ex_youtube_no_refresh "''ytok''" ex_openrouter "''key''" "''model''"]
    ex_admitted [of ex_reddit_no_refresh_expired ex_youtube_no_refresh] ex_log_ok v yv t
  show ?thesis by (simp add: new_calls_def)
qed

text \<open>
  Without these conditions the run does not end with 401. On Reddit, with no refresh
  token and an access token that is valid for more than 5 minutes, the token step returns
  the stored token, and the run goes on to search, generate and publish. On both
  platforms, when the access token is missing as well, the run ends with 400 before the
  token step.
\<close>

theorem no_refresh_token_counterexample:
  "\<not> truthy (rc_refreshToken ex_reddit_disconnected) \<and>
   status (fst (reddit_POST ex_external ex_request
     (ex_world_with ex_reddit_disconnected ex_youtube_disconnected))) = 400 \<and>
   \<not> truthy (yc_refreshToken ex_youtube_disconnected) \<and>
   status (fst (youtube_POST ex_external ex_request
     (ex_world_with ex_reddit_disconnected ex_youtube_disconnected))) = 400 \<and>
   \<not> truthy (rc_refreshToken ex_reddit_no_refresh) \<and>
   reddit_token_stage ex_external ''a1'' ex_reddit_no_refresh ''tok''
     (ex_world_with ex_reddit_no_refresh ex_youtube_no_refresh)
     = (Value ''tok'', ex_world_with ex_reddit_no_refresh ex_youtube_no_refresh) \<and>
   fst (reddit_POST ex_external ex_request (ex_world_with ex_reddit_no_refresh ex_youtube_no_refresh))
     = json (BReplied ''ann'' ''On cats'' ''nice'') 200 \<and>
   new_calls (ex_world_with ex_reddit_no_refresh ex_youtube_no_refresh)
     (snd (reddit_POST ex_external ex_request
        (ex_world_with ex_reddit_no_refresh ex_youtube_no_refresh))) ! 0
     = NetRedditSearch ''tok'' ''cats'' ''day'' 25"
  by (simp add: ex_creds_defs ex_defs io_defs reddit_defs youtube_defs js_defs Let_def
      new_calls_def)

section \<open>Status codes\<close>












section \<open>What the YouTube run leaves out\<close>

lemma db_ignores_session:
  "db (ext\<lparr>CRON_SECRET := c, session_user_id := s\<rparr>) = db ext"
  by (simp add: fun_eq_iff db_def)

lemma createLog_ignores_session:
  "createLog (ext\<lparr>CRON_SECRET := c, session_user_id := s\<rparr>) = createLog ext"
  by (simp add: fun_eq_iff createLog_def db_ignores_session)

lemma allComments_loop_ignores_session:
  "allComments_loop (ext\<lparr>CRON_SECRET := c, session_user_id := s\<rparr>) tok n videos
   = allComments_loop ext tok n videos"
proof (induction videos)
  case Nil
  show ?case by (simp add: fun_eq_iff)
next
  case (Cons v videos)
  show ?case by (simp add: fun_eq_iff Cons.IH fetchVideoComments_def)
qed

lemma youtube_pipeline_ignores_session:
  "youtube_pipeline (ext\<lparr>CRON_SECRET := c, session_user_id := s\<rparr>) = youtube_pipeline ext"
  by (simp add: fun_eq_iff youtube_pipeline_def
      youtube_token_stage_def youtube_videos_stage_def youtube_comments_stage_def
      youtube_select_stage_def youtube_generate_stage_def youtube_publish_stage_def
      youtube_store_def youtube_refreshTokenIfNeeded_def fetchChannelVideos_def
      postCommentReply_def youtube_generateReplyWithLLM_def youtube_upsert_def
      createLog_ignores_session db_ignores_session allComments_loop_ignores_session
      cong: option.case_cong reply.case_cong if_cong)

lemma youtube_ignores_header_and_session:
  "youtube_POST (ext\<lparr>CRON_SECRET := c, session_user_id := s\<rparr>) (req\<lparr>x_cron_secret := h\<rparr>) w
   = youtube_POST ext req w"
  by (simp add: youtube_POST_def youtube_handler_def youtube_validate_def
      youtube_pipeline_ignores_session createLog_ignores_session db_ignores_session
      cong: option.case_cong)

lemma youtube_eligible_iff:
  "c \<in> set (unrepliedComments existing (filteredComments m comments)) \<longleftrightarrow>
   c \<in> set comments \<and> m \<le> cm_likeCount c \<and>
   cm_commentId c \<notin> yi_commentId ` {i \<in> set existing. truthy (yi_ourReply i)}"
  by (auto simp: unrepliedComments_def filteredComments_def)

lemma ex_own_comment_run:
  "yc_channelId ex_youtube_credentials
     = Some (cm_authorChannelId (comment_of_thread ''v1'' ''Video'' ex_thread)) \<and>
   fst (youtube_POST ex_external ex_request ex_world)
     = json (BSuccessReplied ''Me'' ''c1'' ''Video'' ''r1'' ''nice'') 200 \<and>
   new_calls ex_world (snd (youtube_POST ex_external ex_request ex_world)) ! 4
     = NetYouTubeCommentInsert ''ytok'' ''c1'' ''nice'' \<and>
   map yi_commentId (youtubeInteractions (snd (youtube_POST ex_external ex_request ex_world)))
     = [''c1'']"
  by (simp add: ex_defs io_defs youtube_defs js_defs Let_def new_calls_def)

text \<open>
  C1. The YouTube run has no self-reply filter. Whether a fetched comment stays a
  candidate depends on its likes and on the replied set alone, never on its author; so
  a comment written by the channel's owner under an own video, with enough likes, is
  selected, answered and recorded.
\<close>

theorem youtube_replies_to_own_comment:
  "(c \<in> set (unrepliedComments existing (filteredComments m comments)) \<longleftrightarrow>
      c \<in> set comments \<and> m \<le> cm_likeCount c \<and>
      cm_commentId c \<notin> yi_commentId ` {i \<in> set existing. truthy (yi_ourReply i)}) \<and>
   yc_channelId ex_youtube_credentials
     = Some (cm_authorChannelId (comment_of_thread ''v1'' ''Video'' ex_thread)) \<and>
   fst (youtube_POST ex_external ex_request ex_world)
     = json (BSuccessReplied ''Me'' ''c1'' ''Video'' ''r1'' ''nice'') 200 \<and>
   new_calls ex_world (snd (youtube_POST ex_external ex_request ex_world)) ! 4
     = NetYouTubeCommentInsert ''ytok'' ''c1'' ''nice'' \<and>
   map yi_commentId (youtubeInteractions (snd (youtube_POST ex_external ex_request ex_world)))
     = [''c1'']"
  using youtube_eligible_iff [of c existing m comments] ex_own_comment_run
  by (intro conjI) simp_all

text \<open>
  C2. In the YouTube run the interaction write is not guarded: when it throws after the
  reply is published, the run answers 500 and writes no warning. The Reddit run, on the
  same failure, answers 200 with \<open>replied: true\<close> and logs a warning.
\<close>

theorem youtube_record_failure_returns_500:
  "fst (youtube_POST (ex_external\<lparr>db_throws := ex_upsert_fails\<rparr>) ex_request ex_world)
     = json (BError ''Pipeline failed unexpectedly'') 500 \<and>
   new_calls ex_world
     (snd (youtube_POST (ex_external\<lparr>db_throws := ex_upsert_fails\<rparr>) ex_request ex_world)) ! 4
     = NetYouTubeCommentInsert ''ytok'' ''c1'' ''nice'' \<and>
   filter (\<lambda>l. log_level l = Warning)
     (logs (snd (youtube_POST (ex_external\<lparr>db_throws := ex_upsert_fails\<rparr>) ex_request ex_world)))
     = [] \<and>
   fst (reddit_POST (ex_external\<lparr>db_throws := ex_upsert_fails\<rparr>) ex_request ex_world)
     = json (BReplied ''ann'' ''On cats'' ''nice'') 200 \<and>
   filter (\<lambda>l. log_level l = Warning)
     (logs (snd (reddit_POST (ex_external\<lparr>db_throws := ex_upsert_fails\<rparr>) ex_request ex_world)))
     = [\<lparr>log_accountId = ''a1'', log_level = Warning,
         log_message = ''Comment posted but failed to record in database''\<rparr>]"
  by (simp add: ex_defs io_defs youtube_defs reddit_defs js_defs Let_def new_calls_def)

lemma ex_anonymous_run:
  "x_cron_secret ex_anonymous_request = None \<and> session_user_id ex_external = None \<and>
   fst (youtube_POST ex_external ex_anonymous_request ex_world)
     = json (BSuccessReplied ''Me'' ''c1'' ''Video'' ''r1'' ''nice'') 200 \<and>
   new_calls ex_world (snd (youtube_POST ex_external ex_anonymous_request ex_world)) ! 4
     = NetYouTubeCommentInsert ''ytok'' ''c1'' ''nice'' \<and>
   reddit_POST ex_external ex_anonymous_request ex_world
     = (json (BError ''Unauthorized'') 401, ex_world)"
  by (simp add: ex_defs io_defs youtube_defs reddit_defs js_defs Let_def new_calls_def)

text \<open>
  C3. The YouTube handler reads neither the secret header nor the session: its result
  is the same whatever they are, and a request with neither runs the whole pipeline. The
  Reddit handler refuses the same request with 401 and leaves the world as it was.
\<close>

theorem youtube_run_without_authorization:
  "youtube_POST (ext\<lparr>CRON_SECRET := secret, session_user_id := session\<rparr>)
     (req\<lparr>x_cron_secret := header\<rparr>) w = youtube_POST ext req w \<and>
   x_cron_secret ex_anonymous_request = None \<and> session_user_id ex_external = None \<and>
   fst (youtube_POST ex_external ex_anonymous_request ex_world)
     = json (BSuccessReplied ''Me'' ''c1'' ''Video'' ''r1'' ''nice'') 200 \<and>
   new_calls ex_world (snd (youtube_POST ex_external ex_anonymous_request ex_world)) ! 4
     = NetYouTubeCommentInsert ''ytok'' ''c1'' ''nice'' \<and>
   reddit_POST ex_external ex_anonymous_request ex_world
     = (json (BError ''Unauthorized'') 401, ex_world)"
  using youtube_ignores_header_and_session ex_anonymous_run
  by (intro conjI) simp_all

section \<open>Thresholds\<close>

text \<open>
  C4. The Reddit filter reads the threshold as \<open>minimumUpvotes || 10\<close>, so a configured 0
  acts as 10: raising the threshold from 0 to 5 lets a post with 7 upvotes in.
\<close>

theorem reddit_threshold_zero_acts_as_ten:
  "eligiblePosts {} (ex_reddit_config\<lparr>rcfg_minimumUpvotes := 0\<rparr>) ex_reddit_credentials
     [ex_post ''p1'' ''ann'' 7] = [] \<and>
   eligiblePosts {} (ex_reddit_config\<lparr>rcfg_minimumUpvotes := 5\<rparr>) ex_reddit_credentials
     [ex_post ''p1'' ''ann'' 7] = [ex_post ''p1'' ''ann'' 7]"
  by (simp add: ex_defs eligiblePosts_def num_or_else_def)

lemma length_filter_mono:
  "(\<And>x. x \<in> set xs \<Longrightarrow> P x \<Longrightarrow> Q x) \<Longrightarrow> length (filter P xs) \<le> length (filter Q xs)"
  by (induction xs) auto

lemma youtube_threshold_monotone:
  "x \<le> y \<Longrightarrow> length (filteredComments y comments) \<le> length (filteredComments x comments)"
  unfolding filteredComments_def by (rule length_filter_mono) simp

lemma reddit_threshold_monotone:
  "x \<le> y \<Longrightarrow> x \<noteq> 0 \<or> 10 \<le> y \<Longrightarrow>
   length (eligiblePosts ids (cfg\<lparr>rcfg_minimumUpvotes := y\<rparr>) creds posts)
   \<le> length (eligiblePosts ids (cfg\<lparr>rcfg_minimumUpvotes := x\<rparr>) creds posts)"
  unfolding eligiblePosts_def
  by (rule length_filter_mono) (auto simp: num_or_else_def split: if_splits)

text \<open>
  Raising the threshold never enlarges what the filter lets through: for the YouTube
  like filter always, for the Reddit filter whenever the lower threshold is not 0 or the
  higher one is at least 10.
\<close>

theorem threshold_monotone_outside_zero:
  "(x \<le> y \<longrightarrow>
      length (filteredComments y comments) \<le> length (filteredComments x comments)) \<and>
   (x \<le> y \<and> (x \<noteq> 0 \<or> 10 \<le> y) \<longrightarrow>
      length (eligiblePosts ids (cfg\<lparr>rcfg_minimumUpvotes := y\<rparr>) creds posts)
      \<le> length (eligiblePosts ids (cfg\<lparr>rcfg_minimumUpvotes := x\<rparr>) creds posts))"
  using youtube_threshold_monotone [of x y comments]
    reddit_threshold_monotone [of x y ids cfg creds posts]
  by blast

theorem threshold_monotone_outside_zero_witness:
  "(5::int) \<le> 10 \<and>
   length (filteredComments 10 [comment_of_thread ''v1'' ''Video'' ex_thread]) = 0 \<and>
   length (filteredComments 5 [comment_of_thread ''v1'' ''Video'' ex_thread]) = 1 \<and>
   length (filteredComments 10 [comment_of_thread ''v1'' ''Video'' ex_thread])
     \<le> length (filteredComments 5 [comment_of_thread ''v1'' ''Video'' ex_thread]) \<and>
   length (eligiblePosts {} (ex_reddit_config\<lparr>rcfg_minimumUpvotes := 10\<rparr>) ex_reddit_credentials
     [ex_post ''p1'' ''ann'' 7])
     \<le> length (eligiblePosts {} (ex_reddit_config\<lparr>rcfg_minimumUpvotes := 5\<rparr>) ex_reddit_credentials
     [ex_post ''p1'' ''ann'' 7])"
  using threshold_monotone_outside_zero [of 5 10 "[comment_of_thread ''v1'' ''Video'' ex_thread]"
      "{}" ex_reddit_config ex_reddit_credentials "[ex_post ''p1'' ''ann'' 7]"]
  by (simp add: filteredComments_def comment_of_thread_def ex_thread_def)

section \<open>What the Reddit run does where the YouTube run does not\<close>

lemma reddit_never_selects_own_post:
  "targetPost (eligiblePosts ids cfg creds posts) = Some p \<Longrightarrow>
   Some (post_author p) \<noteq> rc_username creds \<and> post_author p \<noteq> ''[deleted]'' \<and>
   post_id p \<notin> ids \<and> p \<in> set posts"
proof -
  assume "targetPost (eligiblePosts ids cfg creds posts) = Some p"
  then have "p \<in> set (sortedPosts (eligiblePosts ids cfg creds posts))"
    by (auto simp: targetPost_def split: list.splits)
  then have "p \<in> set (eligiblePosts ids cfg creds posts)"
    by (simp add: sortedPosts_def set_js_sort)
  then show ?thesis by (simp add: eligiblePosts_def)
qed

text \<open>
  The Reddit filter excludes every post whose author is the account's own username,
  whatever its upvotes, so such a post is never the one selected.
\<close>

theorem reddit_filter_excludes_own_posts:
  "Some (post_author p) = rc_username creds \<longrightarrow>
     p \<notin> set (eligiblePosts ids cfg creds posts) \<and>
     targetPost (eligiblePosts ids cfg creds posts) \<noteq> Some p"
  using reddit_never_selects_own_post [of ids cfg creds posts p]
  by (auto simp: eligiblePosts_def)

theorem reddit_filter_excludes_own_posts_witness:
  "Some (post_author (ex_post ''p9'' ''me'' 9000)) = rc_username ex_reddit_credentials \<and>
   ex_post ''p9'' ''me'' 9000 \<notin> set (eligiblePosts {} ex_reddit_config ex_reddit_credentials
     [ex_post ''p9'' ''me'' 9000, ex_post ''p1'' ''ann'' 20]) \<and>
   targetPost (eligiblePosts {} ex_reddit_config ex_reddit_credentials
     [ex_post ''p9'' ''me'' 9000, ex_post ''p1'' ''ann'' 20]) = Some (ex_post ''p1'' ''ann'' 20)"
  using reddit_filter_excludes_own_posts [of "ex_post ''p9'' ''me'' 9000" ex_reddit_credentials
      "{}" ex_reddit_config "[ex_post ''p9'' ''me'' 9000, ex_post ''p1'' ''ann'' 20]"]
  by (simp add: ex_defs eligiblePosts_def targetPost_def sortedPosts_def js_defs)

text \<open>
  In the Reddit run a failure of the interaction write, or of the pruning after it,
  is caught: when the log table takes the entry, the record step ends normally with one
  warning entry appended, so the run goes on to its 200 response.
\<close>

theorem reddit_record_failure_is_warning:
  "log_ok ext a \<and> fst (reddit_store ext a tp r c w) = Throw e \<longrightarrow>
     reddit_record_stage ext a tp r c w =
       (Value (), (snd (reddit_store ext a tp r c w))
          \<lparr>logs := logs (snd (reddit_store ext a tp r c w)) @
             [\<lparr>log_accountId = a, log_level = Warning,
               log_message = ''Comment posted but failed to record in database''\<rparr>]\<rparr>)"
  by (cases "reddit_store ext a tp r c w")
    (auto simp: reddit_record_stage_def try_catch_def createLog_ok)

theorem reddit_record_failure_is_warning_witness:
  "log_ok (ex_external\<lparr>db_throws := ex_upsert_fails\<rparr>) ''a1'' \<and>
   fst (reddit_store (ex_external\<lparr>db_throws := ex_upsert_fails\<rparr>) ''a1''
          (ex_post ''p1'' ''ann'' 20) ''nice'' ''t1_x'' ex_world) = Throw ''connection lost'' \<and>
   reddit_record_stage (ex_external\<lparr>db_throws := ex_upsert_fails\<rparr>) ''a1''
     (ex_post ''p1'' ''ann'' 20) ''nice'' ''t1_x'' ex_world =
     (Value (), ex_world\<lparr>logs := [\<lparr>log_accountId = ''a1'', log_level = Warning,
        log_message = ''Comment posted but failed to record in database''\<rparr>]\<rparr>)"
proof -
  have 1: "log_ok (ex_external\<lparr>db_throws := ex_upsert_fails\<rparr>) ''a1''"
    by (simp add: log_ok_def ex_defs)
  have 2: "reddit_store (ex_external\<lparr>db_throws := ex_upsert_fails\<rparr>) ''a1''
          (ex_post ''p1'' ''ann'' 20) ''nice'' ''t1_x'' ex_world = (Throw ''connection lost'', ex_world)"
    by (simp add: reddit_store_def bind_def db_def ex_defs)
  from reddit_record_failure_is_warning [of "ex_external\<lparr>db_throws := ex_upsert_fails\<rparr>" "''a1''"
      "ex_post ''p1'' ''ann'' 20" "''nice''" "''t1_x''" ex_world "''connection lost''"] 1 2
  show ?thesis by (simp add: ex_world_def)
qed

text \<open>
  The Reddit handler serves a request without the correct secret header only to a
  session whose user owns the account: otherwise it answers 400, 401, 404 or 500 and
  leaves the world as it was (no log entry, no network call, no database write).
\<close>

theorem reddit_run_requires_authorization:
  "\<not> isCronCall ext req \<and>
   \<not> (\<exists>u acct. session_user_id ext = Some u \<and> u \<noteq> [] \<and> acct \<in> set (accounts w) \<and>
        acc_userId acct = u \<and> body_json req = Some (Some (acc_id acct))) \<longrightarrow>
     snd (reddit_POST ext req w) = w \<and>
     status (fst (reddit_POST ext req w)) \<in> {400, 401, 404, 500}"
proof (intro impI)
  assume h: "\<not> isCronCall ext req \<and>
   \<not> (\<exists>u acct. session_user_id ext = Some u \<and> u \<noteq> [] \<and> acct \<in> set (accounts w) \<and>
        acc_userId acct = u \<and> body_json req = Some (Some (acc_id acct)))"
  have nf: "find (\<lambda>x. acc_id x = a \<and> acc_userId x = u) (accounts w) = None"
    if "session_user_id ext = Some u" "u \<noteq> []" "body_json req = Some (Some a)" for a u
  proof (rule ccontr)
    assume "find (\<lambda>x. acc_id x = a \<and> acc_userId x = u) (accounts w) \<noteq> None"
    then obtain acct where "find (\<lambda>x. acc_id x = a \<and> acc_userId x = u) (accounts w) = Some acct"
      by auto
    then have "acct \<in> set (accounts w)" "acc_id acct = a" "acc_userId acct = u"
      by (auto simp: find_Some_iff)
    with that h show False by blast
  qed
  show "snd (reddit_POST ext req w) = w \<and>
     status (fst (reddit_POST ext req w)) \<in> {400, 401, 404, 500}"
  proof (cases "body_json req")
    case None
    then show ?thesis by (simp add: reddit_POST_def reddit_handler_def throw_def json_def)
  next
    case (Some field)
    show ?thesis
    proof (cases "truthy field")
      case False
      with Some show ?thesis
        by (auto simp: reddit_POST_def reddit_handler_def required_def respond_def json_def
            truthy_def split: option.splits)
    next
      case True
      then obtain a where a: "field = Some a" "a \<noteq> []"
        by (auto simp: truthy_def split: option.splits)
      show ?thesis
      proof (cases "truthy (session_user_id ext)")
        case False
        with h Some a show ?thesis
          by (auto simp: reddit_POST_def reddit_handler_def reddit_find_account_def required_def
              respond_def json_def bind_def truthy_def split: option.splits)
      next
        case True
        then obtain u where u: "session_user_id ext = Some u" "u \<noteq> []"
          by (auto simp: truthy_def split: option.splits)
        from nf [OF u] Some a
        have "find (\<lambda>x. acc_id x = a \<and> acc_userId x = u) (accounts w) = None" by simp
        with h Some a u show ?thesis
          by (cases "db_throws ext (AccountFindFirst a u)")
            (simp_all add: reddit_POST_def reddit_handler_def reddit_find_account_def required_def
              respond_def json_def bind_def db_def)
      qed
    qed
  qed
qed

theorem reddit_run_requires_authorization_witness:
  "\<not> isCronCall ex_external ex_anonymous_request \<and>
   session_user_id ex_external = None \<and>
   reddit_POST ex_external ex_anonymous_request ex_world
     = (json (BError ''Unauthorized'') 401, ex_world) \<and>
   \<not> isCronCall (ex_external\<lparr>session_user_id := Some ''u2''\<rparr>) ex_anonymous_request \<and>
   map acc_userId (accounts ex_world) = [''u1''] \<and>
   snd (reddit_POST (ex_external\<lparr>session_user_id := Some ''u2''\<rparr>) ex_anonymous_request ex_world)
     = ex_world \<and>
   fst (reddit_POST (ex_external\<lparr>session_user_id := Some ''u2''\<rparr>) ex_anonymous_request ex_world)
     = json (BError ''Account not found'') 404"
proof -
  have 1: "\<not> isCronCall ex_external ex_anonymous_request"
    "\<not> isCronCall (ex_external\<lparr>session_user_id := Some ''u2''\<rparr>) ex_anonymous_request"
    by (simp_all add: isCronCall_def ex_defs js_defs)
  have 2: "\<not> (\<exists>u acct. session_user_id (ex_external\<lparr>session_user_id := Some ''u2''\<rparr>) = Some u \<and>
      u \<noteq> [] \<and> acct \<in> set (accounts ex_world) \<and>
      acc_userId acct = u \<and> body_json ex_anonymous_request = Some (Some (acc_id acct)))"
    by (simp add: ex_defs)
  have 3: "fst (reddit_POST (ex_external\<lparr>session_user_id := Some ''u2''\<rparr>) ex_anonymous_request
      ex_world) = json (BError ''Account not found'') 404"
    "reddit_POST ex_external ex_anonymous_request ex_world
     = (json (BError ''Unauthorized'') 401, ex_world)"
    by (simp_all add: ex_defs io_defs reddit_defs js_defs)
  from reddit_run_requires_authorization
      [of "ex_external\<lparr>session_user_id := Some ''u2''\<rparr>" ex_anonymous_request ex_world] 1 2
  have 4: "snd (reddit_POST (ex_external\<lparr>session_user_id := Some ''u2''\<rparr>)
      ex_anonymous_request ex_world) = ex_world"
    by simp
  from 1 3 4 show ?thesis by (simp add: ex_defs)
qed

end
